theory Spec2Isabelle
  imports Main "HOL-Library.Sublist"
begin

section \<open>Strings\<close>

text \<open>
  JavaScript strings are modelled as \<^typ>\<open>string\<close>, one \<^typ>\<open>char\<close> per code unit, so
  the model covers the code units below 256. Of the four line terminators that the
  regular-expression atom \<^verbatim>\<open>.\<close> refuses, line feed and carriage return are in that range.
\<close>

definition startsWith :: "string \<Rightarrow> string \<Rightarrow> bool" where
  "startsWith s p = prefix p s"

definition endsWith :: "string \<Rightarrow> string \<Rightarrow> bool" where
  "endsWith s p = suffix p s"

definition includes_str :: "string \<Rightarrow> string \<Rightarrow> bool" where
  "includes_str s p = sublist p s"

definition isLineTerminator :: "char \<Rightarrow> bool" where
  "isLineTerminator c = (c = CHR 0x0A \<or> c = CHR 0x0D)"

text \<open>The virtual-module prefix \<^verbatim>\<open>\0\<close> of the template literals.\<close>

definition NUL :: char where
  "NUL = CHR 0x00"

section \<open>Data model\<close>

text \<open>
  What a resolver throws. \<^verbatim>\<open>isFailedToResolveNameError\<close> and
  \<^verbatim>\<open>isFailedToResolvePathError\<close> are imported from \<^verbatim>\<open>./metroErrors\<close>.
\<close>

datatype error =
    FailedToResolveNameError string
  | FailedToResolvePathError string
  | CommandError string
  | OtherError string

text \<open>
  Modelled from the spec: the two classifiers of \<^verbatim>\<open>./metroErrors\<close> (its source is not
  available) recognise the failure kinds "name not found" and "path not found".
\<close>

fun isFailedToResolveNameError :: "error \<Rightarrow> bool" where
  "isFailedToResolveNameError (FailedToResolveNameError m) = True"
| "isFailedToResolveNameError e = False"

fun isFailedToResolvePathError :: "error \<Rightarrow> bool" where
  "isFailedToResolvePathError (FailedToResolvePathError m) = True"
| "isFailedToResolvePathError e = False"

text \<open>
  The \<^verbatim>\<open>Resolution\<close> of metro-resolver, a union tagged by \<^verbatim>\<open>type\<close>. A source file
  carries its \<^verbatim>\<open>filePath\<close> and whatever further properties the object has (the rewriter
  copies them with an object spread).
\<close>

datatype Resolution =
    SourceFile (filePath: string) (otherFields: "(string \<times> string) list")
  | AssetFiles (filePaths: "string list")
  | Empty

datatype ResolutionType = TSourceFile | TAssetFiles | TEmpty

fun resolutionType :: "Resolution \<Rightarrow> ResolutionType" where
  "resolutionType (SourceFile p fs) = TSourceFile"
| "resolutionType (AssetFiles ps) = TAssetFiles"
| "resolutionType Empty = TEmpty"

record CustomResolverOptions =
  environment :: "string option"
  exporting :: bool

text \<open>
  The resolution context. \<^verbatim>\<open>redirectModulePath\<close> returns a path or \<^verbatim>\<open>false\<close>
  (\<^term>\<open>None\<close>); \<open>resolveRequest\<close> records whether the context carries a
  \<^verbatim>\<open>resolveRequest\<close> hook.
\<close>

record ResolutionContext =
  originModulePath :: string
  dev :: bool
  customResolverOptions :: CustomResolverOptions
  redirectModulePath :: "string \<Rightarrow> string option"
  sourceExts :: "string list"
  resolveRequest :: bool

text \<open>
  The JavaScript values that a property read of the alias table can give: besides the
  strings of the table, whatever the objects inherit. An object or function is named by
  the path that leads to it, such as \<^verbatim>\<open>Object.prototype.constructor\<close>.
\<close>

datatype JSValue =
    JSUndefined
  | JSNull
  | JSBoolean bool
  | JSNumber int
  | JSString string
  | JSObject string

fun jsTruthy :: "JSValue \<Rightarrow> bool" where
  "jsTruthy JSUndefined = False"
| "jsTruthy JSNull = False"
| "jsTruthy (JSBoolean b) = b"
| "jsTruthy (JSNumber n) = (n \<noteq> 0)"
| "jsTruthy (JSString s) = (s \<noteq> [])"
| "jsTruthy (JSObject name) = True"

text \<open>
  The underlying resolver: \<^verbatim>\<open>metroResolver.resolve\<close> or the fast resolver. It is one
  JavaScript function; the model has it in two parts, \<open>Resolver\<close> for a module name that
  is a string, as the types promise, and \<open>ValueResolver\<close> for any other value (the alias
  stage can hand it one).
\<close>

type_synonym Resolver = "ResolutionContext \<Rightarrow> string \<Rightarrow> string option \<Rightarrow> error + Resolution"

type_synonym ValueResolver = "ResolutionContext \<Rightarrow> JSValue \<Rightarrow> string option \<Rightarrow> error + Resolution"

text \<open>A custom resolver returns a resolution, \<^verbatim>\<open>null\<close> or throws.\<close>

type_synonym StageResult = "error + Resolution option"

text \<open>A universal alias: the groups of a match (index 0 the whole match) and a template.\<close>

type_synonym RegExpMatch = "string option list"

type_synonym UniversalAlias = "(string \<Rightarrow> RegExpMatch option) \<times> string"

text \<open>
  The mutable state that the closures of \<^verbatim>\<open>withExtendedResolver\<close> and the bundler
  share: the virtual modules of the bundler, what \<^verbatim>\<open>Log.warn\<close> printed (oldest
  first), and the lazily filled variables.
\<close>

record PipelineState =
  virtualModules :: "string \<rightharpoonup> string"
  warnings :: "string list"
  warnedMultipleReactNativeVersions :: bool
  assetRegistryPath_cache :: "string option"
  universalAliases_cache :: "UniversalAlias list option"

text \<open>
  Modelled from the spec: the registry of \<^verbatim>\<open>./metroVirtualModules\<close> (its source is not
  available). \<^verbatim>\<open>setVirtualModule(id, contents)\<close> registers or overwrites;
  \<^verbatim>\<open>hasVirtualModule(id)\<close> checks existence.
\<close>

definition setVirtualModule :: "string \<Rightarrow> string \<Rightarrow> PipelineState \<Rightarrow> PipelineState" where
  "setVirtualModule ident contents st = st\<lparr>virtualModules := (virtualModules st)(ident \<mapsto> contents)\<rparr>"

definition hasVirtualModule :: "string \<Rightarrow> PipelineState \<Rightarrow> bool" where
  "hasVirtualModule ident st = (virtualModules st ident \<noteq> None)"

definition Log_warn :: "string \<Rightarrow> PipelineState \<Rightarrow> PipelineState" where
  "Log_warn msg st = st\<lparr>warnings := warnings st @ [msg]\<rparr>"

section \<open>getNodejsExtensions\<close>

text \<open>\<^verbatim>\<open>/mjs$/.test(ext)\<close> and \<^verbatim>\<open>/jsx?$/.test(ext)\<close>.\<close>

definition is_mjs :: "string \<Rightarrow> bool" where
  "is_mjs ext = endsWith ext ''mjs''"

definition is_jsx :: "string \<Rightarrow> bool" where
  "is_jsx ext = (endsWith ext ''js'' \<or> endsWith ext ''jsx'')"

text \<open>
  The \<^verbatim>\<open>reduce\<close> that finds the index of the last \<^verbatim>\<open>*.js\<close> extension: \<open>i\<close> is the
  index of the head of the list, \<open>idx\<close> the accumulator (initially \<open>-1\<close>).
\<close>

fun lastJsIndex :: "int \<Rightarrow> int \<Rightarrow> string list \<Rightarrow> int" where
  "lastJsIndex idx i [] = idx"
| "lastJsIndex idx i (ext # exts) = lastJsIndex (if is_jsx ext then i else idx) (i + 1) exts"

text \<open>\<^verbatim>\<open>xs.splice(start, 0, ...items)\<close> for \<open>0 \<le> start\<close>; a start past the end appends.\<close>

definition splice_insert :: "nat \<Rightarrow> 'a list \<Rightarrow> 'a list \<Rightarrow> 'a list" where
  "splice_insert start items xs = take start xs @ items @ drop start xs"

definition getNodejsExtensions :: "string list \<Rightarrow> string list" where
  "getNodejsExtensions srcExts =
     (let mjsExts = filter is_mjs srcExts;
          nodejsSourceExtensions = filter (\<lambda>ext. \<not> is_mjs ext) srcExts;
          jsIndex = lastJsIndex (- 1) 0 nodejsSourceExtensions
      in splice_insert (nat (jsIndex + 1)) mjsExts nodejsSourceExtensions)"

section \<open>The strict and the optional resolver\<close>

text \<open>\<^verbatim>\<open>getStrictResolver\<close> drops \<^verbatim>\<open>resolveRequest\<close> from the context.\<close>

definition getStrictResolver ::
  "Resolver \<Rightarrow> ResolutionContext \<Rightarrow> string option \<Rightarrow> string \<Rightarrow> error + Resolution" where
  "getStrictResolver resolver context platform moduleName =
     resolver (context\<lparr>resolveRequest := False\<rparr>) moduleName platform"

text \<open>The strict resolver called with a value that need not be a string.\<close>

definition getStrictResolver_value ::
  "Resolver \<Rightarrow> ValueResolver \<Rightarrow> ResolutionContext \<Rightarrow> string option \<Rightarrow> JSValue
     \<Rightarrow> error + Resolution" where
  "getStrictResolver_value resolver resolverOther context platform v =
     (case v of
        JSString moduleName \<Rightarrow> getStrictResolver resolver context platform moduleName
      | _ \<Rightarrow> resolverOther (context\<lparr>resolveRequest := False\<rparr>) v platform)"

definition getOptionalResolver ::
  "Resolver \<Rightarrow> ResolutionContext \<Rightarrow> string option \<Rightarrow> string \<Rightarrow> StageResult" where
  "getOptionalResolver resolver context platform moduleName =
     (case getStrictResolver resolver context platform moduleName of
        Inr res \<Rightarrow> Inr (Some res)
      | Inl err \<Rightarrow>
          (let isResolutionError = (isFailedToResolveNameError err \<or> isFailedToResolvePathError err)
           in if \<not> isResolutionError then Inl err else Inr None))"

section \<open>The host and the configuration\<close>

text \<open>
  The functions of Node.js and of \<^verbatim>\<open>resolve-from\<close> that the resolvers call. Those that
  throw return an \<^typ>\<open>error\<close>; \<^verbatim>\<open>resolveFrom.silent\<close> returns \<^verbatim>\<open>undefined\<close>
  (\<^term>\<open>None\<close>) instead. \<open>builtin_get f key\<close> is the property read
  \<^verbatim>\<open>Object.prototype[f][key]\<close> on one of the functions that \<^verbatim>\<open>Object.prototype\<close> holds:
  what such a function owns and inherits (\<^verbatim>\<open>name\<close>, \<^verbatim>\<open>length\<close>, \<^verbatim>\<open>call\<close>, the
  throwing accessor \<^verbatim>\<open>caller\<close>, the static methods of \<^verbatim>\<open>Object\<close>) varies with the
  engine.
\<close>

record Host =
  fs_realpathSync :: "string \<Rightarrow> error + string"
  fs_readFileSync :: "string \<Rightarrow> error + string"
  path_isAbsolute :: "string \<Rightarrow> bool"
  path_resolve :: "string \<Rightarrow> string"
  path_dirname :: "string \<Rightarrow> string"
  resolveFrom :: "string \<Rightarrow> string \<Rightarrow> error + string"
  resolveFrom_silent :: "string \<Rightarrow> string \<Rightarrow> string option"
  require_resolve :: "string \<Rightarrow> error + string"
  builtin_get :: "string \<Rightarrow> string \<Rightarrow> error + JSValue"

text \<open>The fields of the Metro configuration that are read.\<close>

record Config =
  projectRoot :: string
  transformer_assetRegistryPath :: "string option"
  serializer_getPolyfills :: "(string option \<Rightarrow> error + string list) option"

text \<open>JavaScript truthiness of a \<^verbatim>\<open>string | null | undefined\<close>.\<close>

fun truthy :: "string option \<Rightarrow> bool" where
  "truthy None = False"
| "truthy (Some s) = (s \<noteq> [])"

section \<open>withWebPolyfills\<close>

definition virtualEnvVarId :: string where
  "virtualEnvVarId = NUL # ''polyfill:environment-variables''"

definition virtualModuleId :: string where
  "virtualModuleId = NUL # ''polyfill:external-require''"

definition externalRequire_web :: string where
  \<open>externalRequire_web =
     ''global.$$require_external = typeof window === "undefined" ? require : () => null;''\<close>

definition externalRequire_native :: string where
  \<open>externalRequire_native =
     ''try { global.$$require_external = typeof expo === "undefined" ? require : (moduleId) => { throw new Error(`Node.js standard library module ${moduleId} is not available in this JavaScript environment`);} } catch { global.$$require_external = (moduleId) => { throw new Error(`Node.js standard library module ${moduleId} is not available in this JavaScript environment`);} }''\<close>

definition originalGetPolyfills :: "Config \<Rightarrow> string option \<Rightarrow> error + string list" where
  "originalGetPolyfills config platform =
     (case serializer_getPolyfills config of
        Some f \<Rightarrow> f platform
      | None \<Rightarrow> Inr [])"

definition getPolyfills ::
  "Host \<Rightarrow> Config \<Rightarrow> string option \<Rightarrow> PipelineState \<Rightarrow> (error + string list) \<times> PipelineState" where
  "getPolyfills host config platform st =
     (let st1 = setVirtualModule virtualEnvVarId ''//'' st;
          st2 = setVirtualModule virtualModuleId
                  (if platform = Some ''web'' then externalRequire_web else externalRequire_native) st1
      in if platform = Some ''web'' then
           (case require_resolve host ''@react-native/js-polyfills/error-guard'' of
              Inl err \<Rightarrow> (Inl err, st2)
            | Inr errorGuard \<Rightarrow> (Inr [virtualModuleId, virtualEnvVarId, errorGuard], st2))
         else
           (case originalGetPolyfills config platform of
              Inl err \<Rightarrow> (Inl err, st2)
            | Inr polyfills \<Rightarrow> (Inr (polyfills @ [virtualModuleId, virtualEnvVarId]), st2)))"

section \<open>Node.js externals\<close>

text \<open>
  \<^verbatim>\<open>isNodeExternal\<close> of \<^verbatim>\<open>./externals\<close> is a parameter: it returns the module id of
  a Node.js built-in, or \<^verbatim>\<open>null\<close>. The resolver tests the id for truthiness, so
  an empty id counts as \<^verbatim>\<open>null\<close>.
\<close>

definition nodeExternalContents :: "string \<Rightarrow> string" where
  "nodeExternalContents moduleId =
     ''module.exports=$$require_external('' @ CHR 0x27 # ''node:'' @ moduleId @ CHR 0x27 # '');''"

definition nodeVirtualModuleId :: "string \<Rightarrow> string" where
  "nodeVirtualModuleId moduleId = NUL # ''node:'' @ moduleId"

definition nodeExternalsResolver ::
  "(string \<Rightarrow> string option) \<Rightarrow> Resolver \<Rightarrow> ResolutionContext \<Rightarrow> string \<Rightarrow> string option
     \<Rightarrow> PipelineState \<Rightarrow> StageResult \<times> PipelineState" where
  "nodeExternalsResolver isNodeExternal resolver context moduleName platform st =
     (let isServer = (environment (customResolverOptions context) = Some ''node'' \<or>
                      environment (customResolverOptions context) = Some ''react-server'');
          moduleId = isNodeExternal moduleName
      in case moduleId of
           None \<Rightarrow> (Inr None, st)
         | Some ident \<Rightarrow>
             if ident = [] then (Inr None, st)
             else if \<not> isServer then
               (case getOptionalResolver resolver context platform moduleName of
                  Inl err \<Rightarrow> (Inl err, st)
                | Inr None \<Rightarrow>
                    if platform \<noteq> Some ''web'' then (Inr None, st) else (Inr (Some Empty), st)
                | Inr (Some res) \<Rightarrow> (Inr (Some res), st))
             else
               (let contents = nodeExternalContents ident;
                    virtualModuleId = nodeVirtualModuleId ident
                in (Inr (Some (SourceFile virtualModuleId [])),
                    setVirtualModule virtualModuleId contents st)))"

section \<open>Custom externals\<close>

text \<open>\<^verbatim>\<open>.*\<close> and \<^verbatim>\<open>.+\<close> up to the end of the input: no line terminator.\<close>

definition dotStar :: "string \<Rightarrow> bool" where
  "dotStar s = list_all (\<lambda>c. \<not> isLineTerminator c) s"

definition dotPlus :: "string \<Rightarrow> bool" where
  "dotPlus s = (s \<noteq> [] \<and> dotStar s)"

text \<open>The whole string is \<open>p\<close> followed by a rest that \<open>tail\<close> accepts.\<close>

definition prefixThen :: "string \<Rightarrow> (string \<Rightarrow> bool) \<Rightarrow> string \<Rightarrow> bool" where
  "prefixThen p tail s = (prefix p s \<and> tail (drop (length p) s))"

definition externalNames :: "string list" where
  "externalNames =
     [''source-map-support'', ''react'', ''react-native-helmet-async'', ''react-dom'', ''debug'',
      ''acorn-loose'', ''acorn'', ''hyphenate-style-name'', ''color'', ''color-string'',
      ''color-convert'', ''color-name'', ''fontfaceobserver'', ''fast-deep-equal'',
      ''query-string'', ''escape-string-regexp'', ''invariant'', ''postcss-value-parser'',
      ''memoize-one'', ''nullthrows'', ''strict-uri-encode'', ''decode-uri-component'',
      ''split-on-first'', ''filter-obj'', ''warn-once'', ''simple-swizzle'', ''is-arrayish'']"

text \<open>The anchored regular expression of the externals rule.\<close>

definition externalsRegExp :: "string \<Rightarrow> bool" where
  "externalsRegExp moduleName =
     (moduleName \<in> set externalNames \<or>
      prefixThen ''source-map-support/'' dotStar moduleName \<or>
      prefixThen ''@radix-ui/'' dotPlus moduleName \<or>
      prefixThen ''@babel/runtime/'' dotPlus moduleName \<or>
      prefixThen ''react-dom/'' dotPlus moduleName \<or>
      prefixThen ''css-in-js-utils/lib/'' dotPlus moduleName \<or>
      prefixThen ''inline-style-prefixer/'' dotPlus moduleName)"

record ExternalRule =
  match :: "ResolutionContext \<Rightarrow> string \<Rightarrow> string option \<Rightarrow> bool"
  replace :: string

text \<open>
  \<^verbatim>\<open>isServerEnvironment\<close> of \<^verbatim>\<open>../middleware/metroOptions\<close> is a parameter.
\<close>

definition externals :: "(string option \<Rightarrow> bool) \<Rightarrow> ExternalRule list" where
  "externals isServerEnvironment =
     [\<lparr> match = (\<lambda>context moduleName platform.
          if exporting (customResolverOptions context) \<or>
             \<not> isServerEnvironment (environment (customResolverOptions context))
          then False
          else externalsRegExp moduleName),
        replace = ''node'' \<rparr>]"

definition customExternalContents :: "string \<Rightarrow> string" where
  "customExternalContents moduleName =
     ''module.exports=$$require_external('' @ CHR 0x27 # moduleName @ CHR 0x27 # '')''"

definition customVirtualModuleId :: "string \<Rightarrow> string" where
  "customVirtualModuleId moduleName = NUL # ''node:'' @ moduleName"

definition showPlatform :: "string option \<Rightarrow> string" where
  "showPlatform platform = (case platform of None \<Rightarrow> ''null'' | Some p \<Rightarrow> p)"

definition invalidExternalMessage :: "string \<Rightarrow> string \<Rightarrow> string option \<Rightarrow> string \<Rightarrow> string" where
  "invalidExternalMessage repl moduleName platform origin =
     ''Invalid external alias type: '' @ CHR 0x22 # repl @ CHR 0x22 # '' for module '' @
     CHR 0x22 # moduleName @ CHR 0x22 # '' (platform: '' @ showPlatform platform @
     '', originModulePath: '' @ origin @ '')''"

fun applyExternals ::
  "ExternalRule list \<Rightarrow> ResolutionContext \<Rightarrow> string \<Rightarrow> string option \<Rightarrow> PipelineState
     \<Rightarrow> StageResult \<times> PipelineState" where
  "applyExternals [] context moduleName platform st = (Inr None, st)"
| "applyExternals (ext # rest) context moduleName platform st =
     (if match ext context moduleName platform then
        (if replace ext = ''empty'' then (Inr (Some Empty), st)
         else if replace ext = ''node'' then
           (Inr (Some (SourceFile (customVirtualModuleId moduleName) [])),
            setVirtualModule (customVirtualModuleId moduleName) (customExternalContents moduleName) st)
         else (Inl (CommandError (invalidExternalMessage (replace ext) moduleName platform
                                    (originModulePath context))), st))
      else applyExternals rest context moduleName platform st)"

definition customExternalsResolver ::
  "ExternalRule list \<Rightarrow> ResolutionContext \<Rightarrow> string \<Rightarrow> string option \<Rightarrow> PipelineState
     \<Rightarrow> StageResult \<times> PipelineState" where
  "customExternalsResolver rules context moduleName platform st =
     (if endsWith moduleName ''/package.json'' then (Inr None, st)
      else applyExternals rules context moduleName platform st)"

section \<open>Aliases\<close>

definition aliases :: "(string \<times> (string \<times> string) list) list" where
  "aliases =
     [(''web'',
       [(''react-native'', ''react-native-web''),
        (''react-native/index'', ''react-native-web''),
        (''react-native/Libraries/Image/resolveAssetSource'', ''expo-asset/build/resolveAssetSource'')])]"

text \<open>
  Both \<^verbatim>\<open>aliases\<close> and \<^verbatim>\<open>aliases.web\<close> are object literals, so the operator \<^verbatim>\<open>in\<close>
  and the property reads go on to \<^verbatim>\<open>Object.prototype\<close> where the object has no own
  property of that name. \<^verbatim>\<open>Object.prototype\<close> is taken as the language defines it: it
  holds these functions and the accessor \<^verbatim>\<open>__proto__\<close>.
\<close>

definition objectPrototypeFunctions :: "string list" where
  "objectPrototypeFunctions =
     [''constructor'', ''hasOwnProperty'', ''isPrototypeOf'', ''propertyIsEnumerable'',
      ''toLocaleString'', ''toString'', ''valueOf'', ''__defineGetter__'', ''__defineSetter__'',
      ''__lookupGetter__'', ''__lookupSetter__'']"

text \<open>
  \<^verbatim>\<open>o[key]\<close> for an object \<open>o\<close> that has no own property \<open>key\<close> and whose
  prototype is \<^verbatim>\<open>Object.prototype\<close>; the accessor \<^verbatim>\<open>__proto__\<close> gives that prototype.
\<close>

definition objectPrototype_get :: "string \<Rightarrow> JSValue" where
  "objectPrototype_get key =
     (if key \<in> set objectPrototypeFunctions then JSObject (''Object.prototype.'' @ key)
      else if key = ''__proto__'' then JSObject ''Object.prototype''
      else JSUndefined)"

text \<open>\<^verbatim>\<open>platform in aliases\<close>.\<close>

definition inAliases :: "string \<Rightarrow> bool" where
  "inAliases p =
     (map_of aliases p \<noteq> None \<or> p \<in> set objectPrototypeFunctions \<or> p = ''__proto__'')"

text \<open>
  \<^verbatim>\<open>aliases[platform][moduleName]\<close> for a platform that is \<^verbatim>\<open>in aliases\<close>. For an own
  platform the table is read, then \<^verbatim>\<open>Object.prototype\<close>. For \<^verbatim>\<open>__proto__\<close> the object
  read is \<^verbatim>\<open>Object.prototype\<close> itself, whose own \<^verbatim>\<open>__proto__\<close> is \<^verbatim>\<open>null\<close>. For the
  name of a function of \<^verbatim>\<open>Object.prototype\<close> the host says what that function has.
\<close>

definition aliasValue :: "Host \<Rightarrow> string \<Rightarrow> string \<Rightarrow> error + JSValue" where
  "aliasValue host p moduleName =
     (case map_of aliases p of
        Some table \<Rightarrow>
          (case map_of table moduleName of
             Some redirectedModuleName \<Rightarrow> Inr (JSString redirectedModuleName)
           | None \<Rightarrow> Inr (objectPrototype_get moduleName))
      | None \<Rightarrow>
          if p = ''__proto__''
          then Inr (if moduleName = ''__proto__'' then JSNull else objectPrototype_get moduleName)
          else builtin_get host p moduleName)"

text \<open>
  The value of \<^verbatim>\<open>platform && platform in aliases && aliases[platform][moduleName]\<close>, or the
  error that the property read throws.
\<close>

definition aliasLookup :: "Host \<Rightarrow> string option \<Rightarrow> string \<Rightarrow> error + JSValue" where
  "aliasLookup host platform moduleName =
     (case platform of
        None \<Rightarrow> Inr JSNull
      | Some p \<Rightarrow>
          if p = [] then Inr (JSString [])
          else if \<not> inAliases p then Inr (JSBoolean False)
          else aliasValue host p moduleName)"

text \<open>
  \<^verbatim>\<open>/^react-native-vector-icons(\/.*)?/\<close>: the match array holds the whole match and the
  first group, which is \<^verbatim>\<open>undefined\<close> when no slash follows the package name.
\<close>

definition vectorIconsRegExp :: "string \<Rightarrow> RegExpMatch option" where
  "vectorIconsRegExp moduleName =
     (if prefix ''react-native-vector-icons'' moduleName then
        (case drop (length ''react-native-vector-icons'') moduleName of
           [] \<Rightarrow> Some [Some ''react-native-vector-icons'', None]
         | c # cs \<Rightarrow>
             if c = CHR ''/'' then
               (let g = c # takeWhile (\<lambda>d. \<not> isLineTerminator d) cs
                in Some [Some (''react-native-vector-icons'' @ g), Some g])
             else Some [Some ''react-native-vector-icons'', None])
      else None)"

definition getUniversalAliases ::
  "Host \<Rightarrow> Config \<Rightarrow> PipelineState \<Rightarrow> UniversalAlias list \<times> PipelineState" where
  "getUniversalAliases host config st =
     (case universalAliases_cache st of
        Some cached \<Rightarrow> (cached, st)
      | None \<Rightarrow>
          (let found =
                 (if truthy (resolveFrom_silent host (projectRoot config) ''@expo/vector-icons'')
                  then [(vectorIconsRegExp, ''@expo/vector-icons$1'')]
                  else [])
           in (found, st\<lparr>universalAliases_cache := Some found\<rparr>)))"

definition isDigit :: "char \<Rightarrow> bool" where
  "isDigit c = (48 \<le> (of_char c :: nat) \<and> (of_char c :: nat) \<le> 57)"

text \<open>\<^verbatim>\<open>parseInt(index, 10)\<close> on a string of decimal digits.\<close>

definition parseInt :: "string \<Rightarrow> nat" where
  "parseInt ds = foldl (\<lambda>n d. 10 * n + (of_char d - 48)) 0 ds"

text \<open>\<^verbatim>\<open>match[n] ?? ''\<close>.\<close>

definition matchGroup :: "RegExpMatch \<Rightarrow> nat \<Rightarrow> string" where
  "matchGroup m n = (if n < length m then (case m ! n of None \<Rightarrow> [] | Some g \<Rightarrow> g) else [])"

text \<open>
  \<^verbatim>\<open>alias.replace(/\$(\d+)/g, (_, index) => match[parseInt(index, 10)] ?? '')\<close>: every
  dollar sign followed by digits is replaced, with the longest run of digits as the index.
\<close>

function expandBackrefs :: "RegExpMatch \<Rightarrow> string \<Rightarrow> string" where
  "expandBackrefs m [] = []"
| "expandBackrefs m (c # cs) =
     (if c = CHR ''$'' \<and> takeWhile isDigit cs \<noteq> []
      then matchGroup m (parseInt (takeWhile isDigit cs)) @ expandBackrefs m (dropWhile isDigit cs)
      else c # expandBackrefs m cs)"
  by pat_completeness auto
termination
  by (relation "measure (\<lambda>(m, s). length s)") (auto simp: le_imp_less_Suc length_dropWhile_le)

definition strictResult :: "error + Resolution \<Rightarrow> StageResult" where
  "strictResult r = (case r of Inl err \<Rightarrow> Inl err | Inr res \<Rightarrow> Inr (Some res))"

fun applyUniversalAliases ::
  "Resolver \<Rightarrow> ResolutionContext \<Rightarrow> string option \<Rightarrow> string \<Rightarrow> UniversalAlias list \<Rightarrow> StageResult" where
  "applyUniversalAliases resolver context platform moduleName [] = Inr None"
| "applyUniversalAliases resolver context platform moduleName ((matcher, alias) # rest) =
     (case matcher moduleName of
        Some m \<Rightarrow> strictResult (getStrictResolver resolver context platform (expandBackrefs m alias))
      | None \<Rightarrow> applyUniversalAliases resolver context platform moduleName rest)"

text \<open>
  The alias stage. When the condition is truthy the value is read once more as
  \<^verbatim>\<open>redirectedModuleName\<close> (the same value) and handed to the strict resolver.
\<close>

definition aliasResolver ::
  "Host \<Rightarrow> Config \<Rightarrow> Resolver \<Rightarrow> ValueResolver \<Rightarrow> ResolutionContext \<Rightarrow> string \<Rightarrow> string option
     \<Rightarrow> PipelineState \<Rightarrow> StageResult \<times> PipelineState" where
  "aliasResolver host config resolver resolverOther context moduleName platform st =
     (case aliasLookup host platform moduleName of
        Inl err \<Rightarrow> (Inl err, st)
      | Inr redirectedModuleName \<Rightarrow>
          if jsTruthy redirectedModuleName then
            (strictResult (getStrictResolver_value resolver resolverOther context platform
               redirectedModuleName), st)
          else
            (case getUniversalAliases host config st of
               (universalAliases, st') \<Rightarrow>
                 (applyUniversalAliases resolver context platform moduleName universalAliases, st')))"

section \<open>React Native strict version\<close>

text \<open>
  \<^verbatim>\<open>String.prototype.replace\<close> with a string pattern: the first occurrence is replaced,
  and in the replacement \<^verbatim>\<open>$$\<close> stands for a dollar sign, \<^verbatim>\<open>$&\<close> for the matched
  text, \<^verbatim>\<open>$`\<close> for what precedes it and \<^verbatim>\<open>$'\<close> for what follows it.
\<close>

fun getSubstitution :: "string \<Rightarrow> string \<Rightarrow> string \<Rightarrow> string \<Rightarrow> string" where
  "getSubstitution matched before after [] = []"
| "getSubstitution matched before after [c] = [c]"
| "getSubstitution matched before after (c # d # cs) =
     (if c = CHR ''$'' \<and> d = CHR ''$'' then CHR ''$'' # getSubstitution matched before after cs
      else if c = CHR ''$'' \<and> d = CHR ''&'' then matched @ getSubstitution matched before after cs
      else if c = CHR ''$'' \<and> d = CHR 0x60 then before @ getSubstitution matched before after cs
      else if c = CHR ''$'' \<and> d = CHR 0x27 then after @ getSubstitution matched before after cs
      else c # getSubstitution matched before after (d # cs))"

fun splitAtFirst :: "string \<Rightarrow> string \<Rightarrow> (string \<times> string) option" where
  "splitAtFirst pat [] = (if pat = [] then Some ([], []) else None)"
| "splitAtFirst pat (c # cs) =
     (if prefix pat (c # cs) then Some ([], drop (length pat) (c # cs))
      else (case splitAtFirst pat cs of
              None \<Rightarrow> None
            | Some (before, after) \<Rightarrow> Some (c # before, after)))"

definition replace_str :: "string \<Rightarrow> string \<Rightarrow> string \<Rightarrow> string" where
  "replace_str s pat replacement =
     (case splitAtFirst pat s of
        None \<Rightarrow> s
      | Some (before, after) \<Rightarrow> before @ getSubstitution pat before after replacement @ after)"

definition multipleVersionsWarning :: "string \<Rightarrow> string" where
  "multipleVersionsWarning reactNativePath =
     ''Multiple React Native versions detected, resolving only: '' @ reactNativePath"

text \<open>The resolver that \<^verbatim>\<open>createReactNativeStrictVersionResolver\<close> returns.\<close>

definition reactNativeStrictVersionResolver ::
  "bool \<Rightarrow> string \<Rightarrow> Resolver \<Rightarrow> ResolutionContext \<Rightarrow> string \<Rightarrow> string option \<Rightarrow> PipelineState
     \<Rightarrow> StageResult \<times> PipelineState" where
  "reactNativeStrictVersionResolver enabled reactNativePath resolver context moduleName platform st =
     (if \<not> enabled \<or> \<not> (moduleName = ''react-native'' \<or> startsWith moduleName ''react-native/'')
      then (Inr None, st)
      else
        (case getStrictResolver resolver context platform moduleName of
           Inl err \<Rightarrow> (Inl err, st)
         | Inr resolved \<Rightarrow>
             if (case resolved of
                   SourceFile fp other \<Rightarrow> startsWith fp reactNativePath
                 | _ \<Rightarrow> True)
             then (Inr (Some resolved), st)
             else
               (case redirectModulePath context (replace_str moduleName ''react-native'' reactNativePath) of
                  None \<Rightarrow> (Inr None, st)
                | Some redirectPath \<Rightarrow>
                    (case getStrictResolver resolver context platform redirectPath of
                       Inl err \<Rightarrow> (Inl err, st)
                     | Inr redirectResolved \<Rightarrow>
                         (Inr (Some redirectResolved),
                          if \<not> warnedMultipleReactNativeVersions st
                          then Log_warn (multipleVersionsWarning reactNativePath)
                                 (st\<lparr>warnedMultipleReactNativeVersions := True\<rparr>)
                          else st)))))"

text \<open>
  The parameter \<open>enabled\<close> defaults to \<^verbatim>\<open>false\<close> when the argument is
  \<^verbatim>\<open>undefined\<close>. The construction throws when \<^verbatim>\<open>react-native/package.json\<close> cannot be
  resolved from the project root.
\<close>

definition createReactNativeStrictVersionResolver ::
  "Host \<Rightarrow> Config \<Rightarrow> Resolver \<Rightarrow> bool option
     \<Rightarrow> error + (ResolutionContext \<Rightarrow> string \<Rightarrow> string option \<Rightarrow> PipelineState
                  \<Rightarrow> StageResult \<times> PipelineState)" where
  "createReactNativeStrictVersionResolver host config resolver enabledArg =
     (let enabled = (case enabledArg of None \<Rightarrow> False | Some b \<Rightarrow> b)
      in case resolveFrom host (projectRoot config) ''react-native/package.json'' of
           Inl err \<Rightarrow> Inl err
         | Inr pkg \<Rightarrow> Inr (reactNativeStrictVersionResolver enabled (path_dirname host pkg) resolver))"

text \<open>
  Whether a request makes the resolver above redirect, that is, reach the point where it
  warns: the specifier is validated, resolves to a source file outside \<open>reactNativePath\<close>,
  the redirected path is not \<^verbatim>\<open>false\<close>, and it resolves.
\<close>

definition redirects ::
  "bool \<Rightarrow> string \<Rightarrow> Resolver \<Rightarrow> ResolutionContext \<times> string \<times> string option \<Rightarrow> bool" where
  "redirects enabled reactNativePath resolver request =
     (case request of (context, moduleName, platform) \<Rightarrow>
        enabled \<and> (moduleName = ''react-native'' \<or> startsWith moduleName ''react-native/'') \<and>
        (case getStrictResolver resolver context platform moduleName of
           Inr (SourceFile fp other) \<Rightarrow>
             \<not> startsWith fp reactNativePath \<and>
             (case redirectModulePath context (replace_str moduleName ''react-native'' reactNativePath) of
                None \<Rightarrow> False
              | Some redirectPath \<Rightarrow>
                  (case getStrictResolver resolver context platform redirectPath of
                     Inl err \<Rightarrow> False
                   | Inr redirectResolved \<Rightarrow> True))
         | _ \<Rightarrow> False))"

text \<open>
  One resolver instance serving a sequence of requests; a request that throws leaves the
  instance in use.
\<close>

fun strictVersionRun ::
  "bool \<Rightarrow> string \<Rightarrow> Resolver \<Rightarrow> (ResolutionContext \<times> string \<times> string option) list
     \<Rightarrow> PipelineState \<Rightarrow> PipelineState" where
  "strictVersionRun enabled reactNativePath resolver [] st = st"
| "strictVersionRun enabled reactNativePath resolver ((context, moduleName, platform) # requests) st =
     strictVersionRun enabled reactNativePath resolver requests
       (snd (reactNativeStrictVersionResolver enabled reactNativePath resolver
               context moduleName platform st))"

section \<open>Post-resolution rewrites\<close>

definition backslash :: char where
  "backslash = CHR 0x5C"

text \<open>\<^verbatim>\<open>p.replace(/\\/g, '/')\<close>.\<close>

definition normalizeSlashes :: "string \<Rightarrow> string" where
  "normalizeSlashes p = map (\<lambda>c. if c = backslash then CHR ''/'' else c) p"

text \<open>\<^verbatim>\<open>/node_modules[\\/]react-native-web[\\/]/\<close>.\<close>

definition reactNativeWebRegExp :: "string \<Rightarrow> bool" where
  "reactNativeWebRegExp s =
     list_ex (\<lambda>(a, b). includes_str s (''node_modules'' @ a # ''react-native-web'' @ [b]))
       [(backslash, backslash), (backslash, CHR ''/''), (CHR ''/'', backslash), (CHR ''/'', CHR ''/'')]"

text \<open>
  \<^verbatim>\<open>.replace(/.*node_modules\//, '')\<close>. The match starts at the beginning of the first
  line that contains \<^verbatim>\<open>node_modules/\<close> and ends with the last occurrence in that line.
  \<open>afterLast pat line\<close> is what follows the last occurrence of \<open>pat\<close>, if there is one.
\<close>

fun afterLast :: "string \<Rightarrow> string \<Rightarrow> string option" where
  "afterLast pat [] = None"
| "afterLast pat (c # cs) =
     (case afterLast pat cs of
        Some r \<Rightarrow> Some r
      | None \<Rightarrow> if prefix pat (c # cs) then Some (drop (length pat) (c # cs)) else None)"

function dropToNodeModules :: "string \<Rightarrow> string" where
  "dropToNodeModules s =
     (let line = takeWhile (\<lambda>c. \<not> isLineTerminator c) s;
          rest = dropWhile (\<lambda>c. \<not> isLineTerminator c) s
      in case afterLast ''node_modules/'' line of
           Some r \<Rightarrow> r @ rest
         | None \<Rightarrow> (case rest of [] \<Rightarrow> line | t # rest' \<Rightarrow> line @ t # dropToNodeModules rest'))"
  by pat_completeness auto
termination
proof (relation "measure length")
  show "wf (measure length)" by simp
next
  fix s :: string and line rest t rest'
  assume "rest = dropWhile (\<lambda>c. \<not> isLineTerminator c) s" and "rest = t # rest'"
  then have "length (t # rest') \<le> length s"
    using length_dropWhile_le [of "\<lambda>c. \<not> isLineTerminator c" s] by simp
  then show "(rest', s) \<in> measure length" by simp
qed

declare dropToNodeModules.simps [simp del]

text \<open>
  \<^verbatim>\<open>getAssetRegistryPath\<close>, with its cache. A cached empty path is falsy, so it is
  computed again.
\<close>

definition getAssetRegistryPath ::
  "Host \<Rightarrow> Config \<Rightarrow> PipelineState \<Rightarrow> (error + string) \<times> PipelineState" where
  "getAssetRegistryPath host config st =
     (if truthy (assetRegistryPath_cache st) then (Inr (the (assetRegistryPath_cache st)), st)
      else if truthy (transformer_assetRegistryPath config) \<and>
              path_isAbsolute host (the (transformer_assetRegistryPath config))
      then
        (case fs_realpathSync host (the (transformer_assetRegistryPath config)) of
           Inl err \<Rightarrow> (Inl err, st)
         | Inr real \<Rightarrow> (Inr real, st\<lparr>assetRegistryPath_cache := Some real\<rparr>))
      else
        (case resolveFrom host (projectRoot config)
                (case transformer_assetRegistryPath config of
                   None \<Rightarrow> ''@react-native/assets-registry/registry.js''
                 | Some configured \<Rightarrow> configured) of
           Inl err \<Rightarrow> (Inl err, st)
         | Inr found \<Rightarrow>
             (case fs_realpathSync host (path_resolve host found) of
                Inl err \<Rightarrow> (Inl err, st)
              | Inr real \<Rightarrow> (Inr real, st\<lparr>assetRegistryPath_cache := Some real\<rparr>))))"

definition shimVirtualId :: "string \<Rightarrow> string" where
  "shimVirtualId normalName = NUL # ''shim:'' @ normalName"

text \<open>
  \<^verbatim>\<open>shouldCreateVirtualShim\<close> and \<^verbatim>\<open>shouldCreateVirtualCanary\<close> of \<^verbatim>\<open>./externals\<close> are
  parameters: each returns a file or \<^verbatim>\<open>null\<close>.
\<close>

definition rewriteResolver ::
  "Host \<Rightarrow> Config \<Rightarrow> Resolver \<Rightarrow> (string \<Rightarrow> string option) \<Rightarrow> (string \<Rightarrow> string option) \<Rightarrow> bool
     \<Rightarrow> ResolutionContext \<Rightarrow> string \<Rightarrow> string option \<Rightarrow> PipelineState
     \<Rightarrow> StageResult \<times> PipelineState" where
  "rewriteResolver host config resolver shouldCreateVirtualShim shouldCreateVirtualCanary
       isReactCanaryEnabled context moduleName platform st =
     (if platform = Some ''web'' \<and> reactNativeWebRegExp (originModulePath context) \<and>
         includes_str moduleName ''/modules/AssetRegistry''
      then
        (case getAssetRegistryPath host config st of
           (Inl err, st') \<Rightarrow> (Inl err, st')
         | (Inr registry, st') \<Rightarrow> (Inr (Some (SourceFile registry [])), st'))
      else
        (case getStrictResolver resolver context platform moduleName of
           Inl err \<Rightarrow> (Inl err, st)
         | Inr (AssetFiles ps) \<Rightarrow> (Inr (Some (AssetFiles ps)), st)
         | Inr Empty \<Rightarrow> (Inr (Some Empty), st)
         | Inr (SourceFile fp other) \<Rightarrow>
             if platform = Some ''web'' then
               (if includes_str fp ''node_modules'' then
                  (let normalName = dropToNodeModules (normalizeSlashes fp);
                       shimFile = shouldCreateVirtualShim normalName
                   in if truthy shimFile then
                        (let virtualId = shimVirtualId normalName
                         in if \<not> hasVirtualModule virtualId st then
                              (case fs_readFileSync host (the shimFile) of
                                 Inl err \<Rightarrow> (Inl err, st)
                               | Inr contents \<Rightarrow>
                                   (Inr (Some (SourceFile virtualId other)),
                                    setVirtualModule virtualId contents st))
                            else (Inr (Some (SourceFile virtualId other)), st))
                      else (Inr (Some (SourceFile fp other)), st))
                else (Inr (Some (SourceFile fp other)), st))
             else
               (if isReactCanaryEnabled \<and> includes_str fp ''node_modules'' then
                  (let normalName = dropToNodeModules (normalizeSlashes fp);
                       canaryFile = shouldCreateVirtualCanary normalName
                   in if truthy canaryFile
                      then (Inr (Some (SourceFile (the canaryFile) other)), st)
                      else (Inr (Some (SourceFile fp other)), st))
                else (Inr (Some (SourceFile fp other)), st))))"

section \<open>The chain of resolvers\<close>












section \<open>withMetroMultiPlatformAsync\<close>

record TsConfigPaths =
  paths :: "(string \<times> string list) list option"
  baseUrl :: "string option"

text \<open>The options of \<^verbatim>\<open>withExtendedResolver\<close>; an omitted property is \<^term>\<open>None\<close>.\<close>

record ExtendedResolverOptions =
  opt_tsconfig :: "TsConfigPaths option"
  opt_isTsconfigPathsEnabled :: "bool option"
  opt_isFastResolverEnabled :: "bool option"
  opt_isExporting :: "bool option"
  opt_isReactCanaryEnabled :: "bool option"
  opt_isReactNativeStrictVersionEnabled :: "bool option"

text \<open>The options of \<^verbatim>\<open>withMetroMultiPlatformAsync\<close> that reach the resolver.\<close>

record MultiPlatformOptions =
  isTsconfigPathsEnabled :: bool
  isFastResolverEnabled :: "bool option"
  isExporting :: "bool option"
  isReactCanaryEnabled :: bool
  isReactNativeStrictVersionEnabled :: bool

text \<open>
  The object that \<^verbatim>\<open>withMetroMultiPlatformAsync\<close> passes to
  \<^verbatim>\<open>withExtendedResolver\<close>; \<open>loadTsConfigPaths\<close> stands for the awaited
  \<^verbatim>\<open>loadTsConfigPathsAsync\<close>.
\<close>

definition withMetroMultiPlatformAsync_options ::
  "(string \<Rightarrow> TsConfigPaths option) \<Rightarrow> string \<Rightarrow> MultiPlatformOptions \<Rightarrow> ExtendedResolverOptions" where
  "withMetroMultiPlatformAsync_options loadTsConfigPaths root props =
     (let tsconfig = (if isTsconfigPathsEnabled props then loadTsConfigPaths root else None)
      in \<lparr> opt_tsconfig = tsconfig,
           opt_isTsconfigPathsEnabled = Some (isTsconfigPathsEnabled props),
           opt_isFastResolverEnabled = isFastResolverEnabled props,
           opt_isExporting = isExporting props,
           opt_isReactCanaryEnabled = Some (isReactCanaryEnabled props),
           opt_isReactNativeStrictVersionEnabled = None \<rparr>)"

text \<open>
  The strict-version resolver of the pipeline that \<^verbatim>\<open>withExtendedResolver\<close> builds:
  \<^verbatim>\<open>createReactNativeStrictVersionResolver(isReactNativeStrictVersionEnabled)\<close>.
\<close>

definition withExtendedResolver_strictVersion ::
  "Host \<Rightarrow> Config \<Rightarrow> Resolver \<Rightarrow> ExtendedResolverOptions
     \<Rightarrow> error + (ResolutionContext \<Rightarrow> string \<Rightarrow> string option \<Rightarrow> PipelineState
                  \<Rightarrow> StageResult \<times> PipelineState)" where
  "withExtendedResolver_strictVersion host config resolver opts =
     createReactNativeStrictVersionResolver host config resolver
       (opt_isReactNativeStrictVersionEnabled opts)"

section \<open>A sample project\<close>

text \<open>
  A concrete project on which the theorems below are instantiated: a resolver that knows a
  handful of modules (with a second copy of \<^verbatim>\<open>react-native\<close> inside a workspace
  package), a host, a configuration and the state of a fresh pipeline.
\<close>

definition initialState :: PipelineState where
  "initialState =
     \<lparr> virtualModules = Map.empty, warnings = [], warnedMultipleReactNativeVersions = False,
       assetRegistryPath_cache = None, universalAliases_cache = None \<rparr>"

definition sampleContext :: "string option \<Rightarrow> ResolutionContext" where
  "sampleContext env =
     \<lparr> originModulePath = ''/app/index.js'', dev = False,
       customResolverOptions = \<lparr> environment = env, exporting = False \<rparr>,
       redirectModulePath = Some,
       sourceExts = [''native.js'', ''js'', ''mjs'', ''json''],
       resolveRequest = True \<rparr>"

definition sampleResolver :: Resolver where
  "sampleResolver context moduleName platform =
     (if moduleName = ''react-native''
        then Inr (SourceFile ''/app/packages/ui/node_modules/react-native/index.js'' [])
      else if moduleName = ''/app/node_modules/react-native''
        then Inr (SourceFile ''/app/node_modules/react-native/index.js'' [])
      else if moduleName = ''react-native-web''
        then Inr (SourceFile ''/app/node_modules/react-native-web/dist/index.js'' [])
      else if moduleName = ''@expo/vector-icons/Feather''
        then Inr (SourceFile ''/app/node_modules/@expo/vector-icons/Feather.js'' [])
      else if moduleName = ''path''
        then Inr (SourceFile ''/app/node_modules/path/index.js'' [])
      else if moduleName = ''./logo.png''
        then Inr (AssetFiles [''/app/logo.png''])
      else if moduleName = ''./broken''
        then Inl (OtherError ''Invalid package.json'')
      else Inl (FailedToResolveNameError moduleName))"


text \<open>
  A project where \<^verbatim>\<open>react-native-gesture-handler\<close> brings a copy of \<^verbatim>\<open>react-native\<close> of
  its own, and the import comes from inside that package.
\<close>

definition nestedCopyResolver :: Resolver where
  "nestedCopyResolver context moduleName platform =
     (if moduleName = ''react-native''
        then Inr (SourceFile
          ''/app/node_modules/react-native-gesture-handler/node_modules/react-native/index.js'' [])
      else if moduleName = ''/app/node_modules/react-native''
        then Inr (SourceFile ''/app/node_modules/react-native/index.js'' [])
      else Inl (FailedToResolveNameError moduleName))"

definition sampleValueResolver :: ValueResolver where
  "sampleValueResolver context v platform = Inl (OtherError ''The module name is not a string'')"

definition sampleIsNodeExternal :: "string \<Rightarrow> string option" where
  "sampleIsNodeExternal moduleName =
     (if moduleName = ''fs'' \<or> moduleName = ''node:fs'' then Some ''fs''
      else if moduleName = ''path'' \<or> moduleName = ''node:path'' then Some ''path''
      else None)"

definition sampleIsServerEnvironment :: "string option \<Rightarrow> bool" where
  "sampleIsServerEnvironment env = (env = Some ''node'' \<or> env = Some ''react-server'')"

definition sampleHost :: Host where
  "sampleHost =
     \<lparr> fs_realpathSync = Inr,
       fs_readFileSync = (\<lambda>file. Inr ''module.exports = {};''),
       path_isAbsolute = (\<lambda>p. prefix ''/'' p),
       path_resolve = (\<lambda>p. p),
       path_dirname = (\<lambda>p. ''/app/node_modules/react-native''),
       resolveFrom = (\<lambda>root ident. Inr (root @ ''/node_modules/'' @ ident)),
       resolveFrom_silent = (\<lambda>root ident. Some (root @ ''/node_modules/'' @ ident)),
       require_resolve = (\<lambda>ident. Inr (''/app/node_modules/'' @ ident @ ''.js'')),
       builtin_get = (\<lambda>f key.
         if key = ''name'' then Inr (JSString (if f = ''constructor'' then ''Object'' else f))
         else if key = ''caller'' \<or> key = ''arguments''
           then Inl (OtherError ''TypeError: restricted function property'')
         else if key = ''call'' \<or> key = ''apply'' \<or> key = ''bind''
           then Inr (JSObject (''Function.prototype.'' @ key))
         else Inr JSUndefined) \<rparr>"

definition sampleConfig :: Config where
  "sampleConfig =
     \<lparr> projectRoot = ''/app'', transformer_assetRegistryPath = None,
       serializer_getPolyfills = Some (\<lambda>platform. Inr [''/app/node_modules/react-native/polyfill.js'']) \<rparr>"

definition sampleShim :: "string \<Rightarrow> string option" where
  "sampleShim normalName =
     (if normalName = ''react-native-web/dist/index.js''
      then Some ''/cli/static/shims/react-native-web/dist/index.js''
      else None)"

definition sampleCanary :: "string \<Rightarrow> string option" where
  "sampleCanary normalName =
     (if normalName = ''path/index.js''
      then Some ''/cli/static/canary/path/index.js''
      else None)"

definition sampleOptions :: MultiPlatformOptions where
  "sampleOptions =
     \<lparr> isTsconfigPathsEnabled = False, isFastResolverEnabled = None, isExporting = None,
       isReactCanaryEnabled = False, isReactNativeStrictVersionEnabled = True \<rparr>"

section \<open>Facts about the sample project\<close>

lemma sampleResolver_fs:
  "getStrictResolver sampleResolver (sampleContext env) platform ''fs'' =
     Inl (FailedToResolveNameError ''fs'')"
  by (simp add: getStrictResolver_def sampleResolver_def)

lemma sampleResolver_broken:
  "getStrictResolver sampleResolver (sampleContext env) platform ''./broken'' =
     Inl (OtherError ''Invalid package.json'')"
  by (simp add: getStrictResolver_def sampleResolver_def)

lemma sampleResolver_path:
  "getStrictResolver sampleResolver (sampleContext env) platform ''path'' =
     Inr (SourceFile ''/app/node_modules/path/index.js'' [])"
  by (simp add: getStrictResolver_def sampleResolver_def)

lemma sampleOptional_fs:
  "getOptionalResolver sampleResolver (sampleContext env) platform ''fs'' = Inr None"
  by (simp add: getOptionalResolver_def sampleResolver_fs)

lemma sampleOptional_path:
  "getOptionalResolver sampleResolver (sampleContext env) platform ''path'' =
     Inr (Some (SourceFile ''/app/node_modules/path/index.js'' []))"
  by (simp add: getOptionalResolver_def sampleResolver_path)

lemma sampleContext_environment [simp]:
  "environment (customResolverOptions (sampleContext env)) = env"
  by (simp add: sampleContext_def)

lemma externalsRegExp_react: "externalsRegExp ''react''"
  by (simp add: externalsRegExp_def externalNames_def)

lemma not_package_json_react: "\<not> endsWith ''react'' ''/package.json''"
  by (simp add: endsWith_def suffix_to_prefix)

lemma package_json_react: "endsWith ''react/package.json'' ''/package.json''"
  by (simp add: endsWith_def suffix_to_prefix)

lemma sampleContext_exporting [simp]:
  "exporting (customResolverOptions (sampleContext env)) = False"
  by (simp add: sampleContext_def)

lemma sampleContext_dev [simp]: "dev (sampleContext env) = False"
  by (simp add: sampleContext_def)

lemma sampleResolver_react_native_web:
  "getStrictResolver sampleResolver (sampleContext env) platform ''react-native-web'' =
     Inr (SourceFile ''/app/node_modules/react-native-web/dist/index.js'' [])"
  by (simp add: getStrictResolver_def sampleResolver_def)




lemma sampleResolver_react_native:
  "getStrictResolver sampleResolver c platform ''react-native'' =
     Inr (SourceFile ''/app/packages/ui/node_modules/react-native/index.js'' [])"
  by (simp add: getStrictResolver_def sampleResolver_def)

lemma sampleResolver_canonical:
  "getStrictResolver sampleResolver c platform ''/app/node_modules/react-native'' =
     Inr (SourceFile ''/app/node_modules/react-native/index.js'' [])"
  by (simp add: getStrictResolver_def sampleResolver_def)

lemma sampleResolver_fs_any:
  "getStrictResolver sampleResolver c platform ''fs'' = Inl (FailedToResolveNameError ''fs'')"
  by (simp add: getStrictResolver_def sampleResolver_def)

lemma sample_outside_canonical:
  "\<not> startsWith ''/app/packages/ui/node_modules/react-native/index.js''
       ''/app/node_modules/react-native''"
  by (simp add: startsWith_def)

lemma sample_replace_str:
  "replace_str ''react-native'' ''react-native'' ''/app/node_modules/react-native'' =
     ''/app/node_modules/react-native''"
  by (simp add: replace_str_def)

lemma sampleContext_redirect [simp]: "redirectModulePath (sampleContext env) = Some"
  by (simp add: sampleContext_def)

lemma sample_redirects:
  "redirects True ''/app/node_modules/react-native'' sampleResolver
     (sampleContext env, ''react-native'', platform)"
  by (simp add: redirects_def sampleResolver_react_native sample_outside_canonical
      sample_replace_str sampleResolver_canonical)

lemma sample_not_redirects:
  "\<not> redirects True ''/app/node_modules/react-native'' sampleResolver
     (sampleContext env, ''fs'', platform)"
  by (simp add: redirects_def startsWith_def)

lemma sample_origin_not_rnw: "\<not> reactNativeWebRegExp (originModulePath (sampleContext env))"
  by (simp add: reactNativeWebRegExp_def sampleContext_def includes_str_def sublist_code backslash_def)

lemma sample_normalName_rnw:
  "dropToNodeModules (normalizeSlashes ''/app/node_modules/react-native-web/dist/index.js'') =
     ''react-native-web/dist/index.js''"
  by (simp add: normalizeSlashes_def backslash_def isLineTerminator_def dropToNodeModules.simps)

lemma sample_normalName_path:
  "dropToNodeModules (normalizeSlashes ''/app/node_modules/path/index.js'') = ''path/index.js''"
  by (simp add: normalizeSlashes_def backslash_def isLineTerminator_def dropToNodeModules.simps)

lemma sample_includes_node_modules:
  "includes_str ''/app/node_modules/react-native-web/dist/index.js'' ''node_modules''"
  "includes_str ''/app/node_modules/path/index.js'' ''node_modules''"
  by (simp_all add: includes_str_def sublist_code)

lemma sampleResolver_logo:
  "getStrictResolver sampleResolver c platform ''./logo.png'' = Inr (AssetFiles [''/app/logo.png''])"
  by (simp add: getStrictResolver_def sampleResolver_def)

lemma sample_rewrite_web:
  "rewriteResolver sampleHost sampleConfig sampleResolver sampleShim sampleCanary True
     (sampleContext None) ''react-native-web'' (Some ''web'') initialState =
     (Inr (Some (SourceFile (CHR 0x00 # ''shim:react-native-web/dist/index.js'') [])),
      initialState\<lparr>virtualModules := (virtualModules initialState)
        (CHR 0x00 # ''shim:react-native-web/dist/index.js'' \<mapsto> ''module.exports = {};'')\<rparr>)"
  by (simp add: rewriteResolver_def sample_origin_not_rnw sampleResolver_react_native_web
      sample_includes_node_modules sample_normalName_rnw sampleShim_def shimVirtualId_def
      hasVirtualModule_def initialState_def sampleHost_def setVirtualModule_def NUL_def Let_def)

lemma sample_rewrite_native:
  "rewriteResolver sampleHost sampleConfig sampleResolver sampleShim sampleCanary True
     (sampleContext None) ''path'' (Some ''ios'') initialState =
     (Inr (Some (SourceFile ''/cli/static/canary/path/index.js'' [])), initialState)"
  by (simp add: rewriteResolver_def sampleResolver_path
      sample_includes_node_modules sample_normalName_path sampleCanary_def Let_def)

lemma initialState_virtualModules: "virtualModules initialState = Map.empty"
  by (simp add: initialState_def)

section \<open>Extension order for Node.js\<close>

lemma filter_not_mjs_mjs: "filter (\<lambda>ext. \<not> is_mjs ext) (filter is_mjs xs) = []"
  by (induction xs) auto

lemma filter_splice_insert:
  "filter P (splice_insert n ys xs) = filter P (take n xs) @ filter P ys @ filter P (drop n xs)"
  by (simp add: splice_insert_def)

lemma filter_take_drop: "filter P (take n xs) @ filter P (drop n xs) = filter P xs"
  by (metis append_take_drop_id filter_append)

text \<open>
  C7. For the source extensions \<^verbatim>\<open>["native.js", "js", "mjs", "json"]\<close> the computed list
  has \<^verbatim>\<open>mjs\<close> immediately after \<^verbatim>\<open>js\<close> and before \<^verbatim>\<open>json\<close>; and for every input
  list, the extensions that do not end in \<^verbatim>\<open>mjs\<close> keep their relative order.
\<close>

theorem getNodejsExtensions_mjs_after_js:
  "getNodejsExtensions [''native.js'', ''js'', ''mjs'', ''json''] =
     [''native.js'', ''js'', ''mjs'', ''json''] \<and>
   filter (\<lambda>ext. \<not> is_mjs ext) (getNodejsExtensions srcExts) =
     filter (\<lambda>ext. \<not> is_mjs ext) srcExts"
proof
  show "getNodejsExtensions [''native.js'', ''js'', ''mjs'', ''json''] =
          [''native.js'', ''js'', ''mjs'', ''json'']"
    by (simp add: getNodejsExtensions_def is_mjs_def is_jsx_def endsWith_def suffix_to_prefix
        splice_insert_def)
  show "filter (\<lambda>ext. \<not> is_mjs ext) (getNodejsExtensions srcExts) =
          filter (\<lambda>ext. \<not> is_mjs ext) srcExts"
    by (simp add: getNodejsExtensions_def Let_def filter_splice_insert filter_not_mjs_mjs
        filter_take_drop)
qed

theorem getNodejsExtensions_mjs_after_js_witness:
  "filter (\<lambda>ext. \<not> is_mjs ext)
     (getNodejsExtensions [''mjs'', ''js'', ''json'', ''cjs'', ''native.mjs'']) =
     [''js'', ''json'', ''cjs''] \<and>
   getNodejsExtensions [''mjs'', ''js'', ''json'', ''cjs'', ''native.mjs''] =
     [''js'', ''json'', ''cjs'', ''mjs'', ''native.mjs'']"
  using getNodejsExtensions_mjs_after_js [of "[''mjs'', ''js'', ''json'', ''cjs'', ''native.mjs'']"]
  by (simp add: getNodejsExtensions_def is_mjs_def is_jsx_def endsWith_def suffix_to_prefix
      splice_insert_def)

section \<open>The optional resolver\<close>

text \<open>
  C4. The optional resolver returns \<^verbatim>\<open>null\<close> exactly when the strict resolution throws
  an error classified as failed-to-resolve-name or failed-to-resolve-path; any other error
  is thrown on unchanged; and a successful strict resolution is returned as it is.
\<close>

theorem getOptionalResolver_null_iff_not_found:
  "(getOptionalResolver resolver context platform moduleName = Inr None \<longleftrightarrow>
     (\<exists>err. getStrictResolver resolver context platform moduleName = Inl err \<and>
        (isFailedToResolveNameError err \<or> isFailedToResolvePathError err))) \<and>
   (\<forall>err. getStrictResolver resolver context platform moduleName = Inl err \<and>
        \<not> (isFailedToResolveNameError err \<or> isFailedToResolvePathError err) \<longrightarrow>
        getOptionalResolver resolver context platform moduleName = Inl err) \<and>
   (\<forall>res. getStrictResolver resolver context platform moduleName = Inr res \<longrightarrow>
        getOptionalResolver resolver context platform moduleName = Inr (Some res))"
  by (auto simp: getOptionalResolver_def split: sum.splits)

theorem getOptionalResolver_null_iff_not_found_witness:
  "getOptionalResolver sampleResolver (sampleContext None) (Some ''ios'') ''fs'' = Inr None \<and>
   getOptionalResolver sampleResolver (sampleContext None) (Some ''ios'') ''./broken'' =
     Inl (OtherError ''Invalid package.json'') \<and>
   getOptionalResolver sampleResolver (sampleContext None) (Some ''ios'') ''path'' =
     Inr (Some (SourceFile ''/app/node_modules/path/index.js'' []))"
  using getOptionalResolver_null_iff_not_found
          [of sampleResolver "sampleContext None" "Some ''ios''" "''fs''"]
        getOptionalResolver_null_iff_not_found
          [of sampleResolver "sampleContext None" "Some ''ios''" "''./broken''"]
        getOptionalResolver_null_iff_not_found
          [of sampleResolver "sampleContext None" "Some ''ios''" "''path''"]
  by (simp add: sampleResolver_fs sampleResolver_broken sampleResolver_path)

section \<open>Node.js built-in modules\<close>

text \<open>
  C1. When the specifier names a Node.js built-in (\<^verbatim>\<open>isNodeExternal\<close> returns its module
  id): in the environments \<^verbatim>\<open>node\<close> and \<^verbatim>\<open>react-server\<close> the resolver returns a source
  file whose path is \<^verbatim>\<open>\0node:<moduleId>\<close> and registers under that id exactly the source
  \<^verbatim>\<open>module.exports=$$require_external('node:<moduleId>');\<close>. In any other environment
  it asks the optional resolver first and returns its result when there is one; when
  there is none it returns the empty module on the platform \<^verbatim>\<open>web\<close> and \<^verbatim>\<open>null\<close> on
  every other platform. An error of the optional resolver is thrown on.
\<close>

theorem nodeExternalsResolver_builtin:
  assumes "isNodeExternal moduleName = Some moduleId" and "moduleId \<noteq> []"
  shows
    "(environment (customResolverOptions ctx) = Some ''node'' \<or>
      environment (customResolverOptions ctx) = Some ''react-server'' \<longrightarrow>
        nodeExternalsResolver isNodeExternal resolver ctx moduleName platform st =
          (Inr (Some (SourceFile (CHR 0x00 # ''node:'' @ moduleId) [])),
           st\<lparr>virtualModules := (virtualModules st)
                 (CHR 0x00 # ''node:'' @ moduleId \<mapsto>
                  ''module.exports=$$require_external('' @ [CHR 0x27] @ ''node:'' @ moduleId @
                  [CHR 0x27] @ '');'')\<rparr>)) \<and>
     (\<not> (environment (customResolverOptions ctx) = Some ''node'' \<or>
         environment (customResolverOptions ctx) = Some ''react-server'') \<longrightarrow>
        (\<forall>res. getOptionalResolver resolver ctx platform moduleName = Inr (Some res) \<longrightarrow>
           nodeExternalsResolver isNodeExternal resolver ctx moduleName platform st =
             (Inr (Some res), st)) \<and>
        (getOptionalResolver resolver ctx platform moduleName = Inr None \<longrightarrow>
           nodeExternalsResolver isNodeExternal resolver ctx moduleName platform st =
             (if platform = Some ''web'' then (Inr (Some Empty), st) else (Inr None, st))) \<and>
        (\<forall>err. getOptionalResolver resolver ctx platform moduleName = Inl err \<longrightarrow>
           nodeExternalsResolver isNodeExternal resolver ctx moduleName platform st =
             (Inl err, st)))"
  using assms
  by (auto simp: nodeExternalsResolver_def Let_def nodeExternalContents_def
      nodeVirtualModuleId_def NUL_def setVirtualModule_def)

theorem nodeExternalsResolver_builtin_witness:
  "nodeExternalsResolver sampleIsNodeExternal sampleResolver (sampleContext (Some ''node''))
     ''node:fs'' (Some ''ios'') initialState =
     (Inr (Some (SourceFile (CHR 0x00 # ''node:fs'') [])),
      initialState\<lparr>virtualModules := (virtualModules initialState)
        (CHR 0x00 # ''node:fs'' \<mapsto> ''module.exports=$$require_external('' @ [CHR 0x27] @ ''node:fs'' @ [CHR 0x27] @ '');'')\<rparr>) \<and>
   nodeExternalsResolver sampleIsNodeExternal sampleResolver (sampleContext None)
     ''fs'' (Some ''web'') initialState = (Inr (Some Empty), initialState) \<and>
   nodeExternalsResolver sampleIsNodeExternal sampleResolver (sampleContext None)
     ''fs'' (Some ''ios'') initialState = (Inr None, initialState) \<and>
   nodeExternalsResolver sampleIsNodeExternal sampleResolver (sampleContext None)
     ''path'' (Some ''ios'') initialState =
     (Inr (Some (SourceFile ''/app/node_modules/path/index.js'' [])), initialState)"
proof -
  have a: "sampleIsNodeExternal ''node:fs'' = Some ''fs''" "sampleIsNodeExternal ''fs'' = Some ''fs''"
    "sampleIsNodeExternal ''path'' = Some ''path''" "''fs'' \<noteq> []" "''path'' \<noteq> []"
    by (simp_all add: sampleIsNodeExternal_def)
  show ?thesis
    using nodeExternalsResolver_builtin [where isNodeExternal = sampleIsNodeExternal
        and moduleName = "''node:fs''" and moduleId = "''fs''" and resolver = sampleResolver
        and ctx = "sampleContext (Some ''node'')" and platform = "Some ''ios''"
        and st = initialState]
      nodeExternalsResolver_builtin [where isNodeExternal = sampleIsNodeExternal
        and moduleName = "''fs''" and moduleId = "''fs''" and resolver = sampleResolver
        and ctx = "sampleContext None" and platform = "Some ''web''" and st = initialState]
      nodeExternalsResolver_builtin [where isNodeExternal = sampleIsNodeExternal
        and moduleName = "''fs''" and moduleId = "''fs''" and resolver = sampleResolver
        and ctx = "sampleContext None" and platform = "Some ''ios''" and st = initialState]
      nodeExternalsResolver_builtin [where isNodeExternal = sampleIsNodeExternal
        and moduleName = "''path''" and moduleId = "''path''" and resolver = sampleResolver
        and ctx = "sampleContext None" and platform = "Some ''ios''" and st = initialState]
    by (simp add: a sampleOptional_fs sampleOptional_path)
qed

section \<open>The strict-version option of withMetroMultiPlatformAsync\<close>

text \<open>
  C2. Whatever options \<^verbatim>\<open>withMetroMultiPlatformAsync\<close> receives, also with
  \<^verbatim>\<open>isReactNativeStrictVersionEnabled\<close> true, the object it passes to
  \<^verbatim>\<open>withExtendedResolver\<close> omits that option: the strict-version resolver is made with
  \<open>enabled = false\<close> and returns \<^verbatim>\<open>null\<close> for every request, leaving the state as it is.
\<close>

theorem multiPlatform_strictVersion_disabled:
  "opt_isReactNativeStrictVersionEnabled
     (withMetroMultiPlatformAsync_options loadTsConfigPaths root props) = None \<and>
   withExtendedResolver_strictVersion host config resolver
     (withMetroMultiPlatformAsync_options loadTsConfigPaths root props) =
     (case resolveFrom host (projectRoot config) ''react-native/package.json'' of
        Inl err \<Rightarrow> Inl err
      | Inr pkg \<Rightarrow> Inr (reactNativeStrictVersionResolver False (path_dirname host pkg) resolver)) \<and>
   (\<forall>stage. withExtendedResolver_strictVersion host config resolver
       (withMetroMultiPlatformAsync_options loadTsConfigPaths root props) = Inr stage \<longrightarrow>
      stage ctx moduleName platform st = (Inr None, st))"
  by (auto simp: withMetroMultiPlatformAsync_options_def Let_def withExtendedResolver_strictVersion_def
      createReactNativeStrictVersionResolver_def reactNativeStrictVersionResolver_def split: sum.splits)

theorem multiPlatform_strictVersion_disabled_witness:
  "isReactNativeStrictVersionEnabled sampleOptions \<and>
   (\<exists>stage. withExtendedResolver_strictVersion sampleHost sampleConfig sampleResolver
       (withMetroMultiPlatformAsync_options (\<lambda>root. None) ''/app'' sampleOptions) = Inr stage \<and>
      stage (sampleContext None) ''react-native'' (Some ''ios'') initialState = (Inr None, initialState))"
  using multiPlatform_strictVersion_disabled [of "\<lambda>root. None" "''/app''" sampleOptions sampleHost sampleConfig sampleResolver
      "sampleContext None" "''react-native''" "Some ''ios''" initialState]
  by (simp add: sampleOptions_def sampleHost_def sampleConfig_def)


section \<open>Declared package externals\<close>

lemma externals_match:
  "match (hd (externals isServerEnvironment)) ctx moduleName platform =
     (\<not> exporting (customResolverOptions ctx) \<and>
      isServerEnvironment (environment (customResolverOptions ctx)) \<and>
      externalsRegExp moduleName)"
  by (simp add: externals_def)

lemma applyExternals_externals:
  "applyExternals (externals isServerEnvironment) ctx moduleName platform st =
     (if \<not> exporting (customResolverOptions ctx) \<and>
         isServerEnvironment (environment (customResolverOptions ctx)) \<and>
         externalsRegExp moduleName
      then (Inr (Some (SourceFile (customVirtualModuleId moduleName) [])),
            setVirtualModule (customVirtualModuleId moduleName) (customExternalContents moduleName) st)
      else (Inr None, st))"
  by (simp add: externals_def)

text \<open>
  C3, as the code has it. The stage makes its deferred-require virtual module exactly when
  the specifier does not end in \<^verbatim>\<open>/package.json\<close>, the request is not exporting, the
  environment is server-like and the specifier is on the allow-list; the \<^verbatim>\<open>dev\<close> flag of
  the context is not read. The virtual id is \<^verbatim>\<open>\0node:\<close> followed by the specifier, the
  prefix that the built-in Node.js externals use as well, and the registered source is
  \<^verbatim>\<open>module.exports=$$require_external('<specifier>')\<close>. For a specifier that ends in
  \<^verbatim>\<open>/package.json\<close> the stage returns \<^verbatim>\<open>null\<close> whatever the rules are.
\<close>

theorem customExternalsResolver_gate:
  "customExternalsResolver (externals isServerEnvironment) ctx moduleName platform st =
     (if \<not> endsWith moduleName ''/package.json'' \<and>
         \<not> exporting (customResolverOptions ctx) \<and>
         isServerEnvironment (environment (customResolverOptions ctx)) \<and>
         externalsRegExp moduleName
      then (Inr (Some (SourceFile (CHR 0x00 # ''node:'' @ moduleName) [])),
            st\<lparr>virtualModules := (virtualModules st)
                  (CHR 0x00 # ''node:'' @ moduleName \<mapsto>
                   ''module.exports=$$require_external('' @ [CHR 0x27] @ moduleName @
                   [CHR 0x27] @ '')'')\<rparr>)
      else (Inr None, st)) \<and>
   customExternalsResolver (externals isServerEnvironment) (ctx\<lparr>dev := d\<rparr>) moduleName platform st =
     customExternalsResolver (externals isServerEnvironment) ctx moduleName platform st \<and>
   customVirtualModuleId moduleName = nodeVirtualModuleId moduleName \<and>
   (endsWith moduleName ''/package.json'' \<longrightarrow>
      customExternalsResolver rules ctx moduleName platform st = (Inr None, st))"
  by (simp add: customExternalsResolver_def applyExternals_externals customVirtualModuleId_def
      nodeVirtualModuleId_def customExternalContents_def setVirtualModule_def NUL_def)

theorem customExternalsResolver_gate_witness:
  "customExternalsResolver (externals sampleIsServerEnvironment) (sampleContext (Some ''node''))
     ''react'' (Some ''ios'') initialState =
     (Inr (Some (SourceFile (CHR 0x00 # ''node:react'') [])),
      initialState\<lparr>virtualModules := (virtualModules initialState)
        (CHR 0x00 # ''node:react'' \<mapsto>
         ''module.exports=$$require_external('' @ [CHR 0x27] @ ''react'' @ [CHR 0x27] @ '')'')\<rparr>) \<and>
   customExternalsResolver (externals sampleIsServerEnvironment) (sampleContext (Some ''node''))
     ''react/package.json'' (Some ''ios'') initialState = (Inr None, initialState)"
  using customExternalsResolver_gate [of sampleIsServerEnvironment "sampleContext (Some ''node'')"
      "''react''" "Some ''ios''" initialState]
    customExternalsResolver_gate [of sampleIsServerEnvironment "sampleContext (Some ''node'')"
      "''react/package.json''" "Some ''ios''" initialState _ "externals sampleIsServerEnvironment"]
  by (simp add: externalsRegExp_react not_package_json_react package_json_react
      sampleIsServerEnvironment_def)

text \<open>
  C3, as stated, fails: with \<^verbatim>\<open>dev\<close> false the stage still virtualizes \<^verbatim>\<open>react\<close> in the
  \<^verbatim>\<open>node\<close> environment, and its id \<^verbatim>\<open>\0node:react\<close> lies in the namespace
  \<^verbatim>\<open>\0node:\<close> of the id \<^verbatim>\<open>\0node:fs\<close> that the built-in externals make.
\<close>

theorem customExternalsResolver_not_dev_only:
  "\<not> dev (sampleContext (Some ''node'')) \<and>
   fst (customExternalsResolver (externals sampleIsServerEnvironment) (sampleContext (Some ''node''))
     ''react'' (Some ''ios'') initialState) =
     Inr (Some (SourceFile (CHR 0x00 # ''node:react'') [])) \<and>
   fst (nodeExternalsResolver sampleIsNodeExternal sampleResolver (sampleContext (Some ''node''))
     ''node:fs'' (Some ''ios'') initialState) =
     Inr (Some (SourceFile (CHR 0x00 # ''node:fs'') []))"
  by (simp add: customExternalsResolver_def applyExternals_externals externalsRegExp_react
      not_package_json_react sampleIsServerEnvironment_def customVirtualModuleId_def NUL_def
      nodeExternalsResolver_def sampleIsNodeExternal_def nodeVirtualModuleId_def Let_def)


section \<open>Aliases resolve their replacement\<close>











text \<open>
  A specifier named like a member of \<^verbatim>\<open>Object.prototype\<close> also takes the exact-alias
  branch on \<^verbatim>\<open>web\<close>: the strict resolver is called with the inherited function.
\<close>

lemma aliasResolver_constructor_on_web:
  "aliasResolver host config resolver resolverOther ctx ''constructor'' (Some ''web'') st =
     (strictResult (resolverOther (ctx\<lparr>resolveRequest := False\<rparr>)
        (JSObject ''Object.prototype.constructor'') (Some ''web'')), st)"
  by (simp add: aliasResolver_def aliasLookup_def inAliases_def aliasValue_def aliases_def
      objectPrototype_get_def objectPrototypeFunctions_def getStrictResolver_value_def)













section \<open>Strict-version redirection\<close>

lemma getSubstitution_no_dollar:
  "CHR ''$'' \<notin> set template \<Longrightarrow> getSubstitution matched before after template = template"
  by (induction matched before after template rule: getSubstitution.induct) auto

lemma splitAtFirst_prefix:
  "prefix pat s \<Longrightarrow> splitAtFirst pat s = Some ([], drop (length pat) s)"
  by (cases s) auto

lemma replace_str_prefix:
  "prefix pat s \<Longrightarrow> CHR ''$'' \<notin> set replacement \<Longrightarrow>
   replace_str s pat replacement = replacement @ drop (length pat) s"
  by (simp add: replace_str_def splitAtFirst_prefix getSubstitution_no_dollar)

lemma validated_prefix:
  "moduleName = ''react-native'' \<or> startsWith moduleName ''react-native/'' \<Longrightarrow>
   prefix ''react-native'' moduleName"
  by (auto simp: startsWith_def prefix_def)

lemma strictVersion_step:
  "snd (reactNativeStrictVersionResolver enabled reactNativePath resolver ctx moduleName platform st) =
     (if redirects enabled reactNativePath resolver (ctx, moduleName, platform) \<and>
         \<not> warnedMultipleReactNativeVersions st
      then Log_warn (multipleVersionsWarning reactNativePath)
             (st\<lparr>warnedMultipleReactNativeVersions := True\<rparr>)
      else st)"
proof (cases "enabled \<and> (moduleName = ''react-native'' \<or> startsWith moduleName ''react-native/'')")
  case False
  then show ?thesis
    by (auto simp: reactNativeStrictVersionResolver_def redirects_def)
next
  case valid: True
  show ?thesis
  proof (cases "getStrictResolver resolver ctx platform moduleName")
    case (Inl err)
    with valid show ?thesis
      by (simp add: reactNativeStrictVersionResolver_def redirects_def)
  next
    case (Inr resolved)
    show ?thesis
    proof (cases resolved)
      case (SourceFile fp other)
      show ?thesis
      proof (cases "startsWith fp reactNativePath")
        case True
        with valid Inr SourceFile show ?thesis
          by (simp add: reactNativeStrictVersionResolver_def redirects_def)
      next
        case outside: False
        show ?thesis
        proof (cases "redirectModulePath ctx (replace_str moduleName ''react-native'' reactNativePath)")
          case None
          with valid Inr SourceFile outside show ?thesis
            by (simp add: reactNativeStrictVersionResolver_def redirects_def)
        next
          case (Some redirectPath)
          with valid Inr SourceFile outside show ?thesis
            by (cases "getStrictResolver resolver ctx platform redirectPath")
               (simp_all add: reactNativeStrictVersionResolver_def redirects_def)
        qed
      qed
    next
      case (AssetFiles ps)
      with valid Inr show ?thesis
        by (simp add: reactNativeStrictVersionResolver_def redirects_def)
    next
      case Empty
      with valid Inr show ?thesis
        by (simp add: reactNativeStrictVersionResolver_def redirects_def)
    qed
  qed
qed

lemma strictVersionRun_warnings:
  "warnings (strictVersionRun enabled reactNativePath resolver requests st) =
     warnings st @
     (if \<not> warnedMultipleReactNativeVersions st \<and>
         list_ex (redirects enabled reactNativePath resolver) requests
      then [multipleVersionsWarning reactNativePath] else [])"
proof (induction requests arbitrary: st)
  case Nil
  then show ?case by simp
next
  case (Cons request requests)
  obtain ctx moduleName platform where r: "request = (ctx, moduleName, platform)"
    by (cases request) auto
  show ?case
    unfolding r strictVersionRun.simps Cons.IH strictVersion_step
    by (simp add: Log_warn_def)
qed

text \<open>
  The stage as the code has it, with its test \<^verbatim>\<open>filePath.startsWith(reactNativePath)\<close>.
  With the redirector enabled, take a specifier that is \<^verbatim>\<open>react-native\<close> or starts
  with \<^verbatim>\<open>react-native/\<close> and resolves to a source file whose path does not start with
  the canonical directory. Then the stage returns the strict resolution of the path that
  \<^verbatim>\<open>redirectModulePath\<close> gives for the specifier with \<^verbatim>\<open>react-native\<close> replaced by the
  canonical directory (the canonical directory followed by the rest of the specifier, when
  the directory has no dollar sign); it returns \<^verbatim>\<open>null\<close> when \<^verbatim>\<open>redirectModulePath\<close>
  returns \<^verbatim>\<open>false\<close>. Over any sequence of requests served by one instance that has not
  warned yet, the warning is printed once if some request redirects and not at all
  otherwise.
\<close>

theorem strictVersion_redirects_and_warns_once:
  "(enabled \<and> (moduleName = ''react-native'' \<or> startsWith moduleName ''react-native/'') \<and>
    getStrictResolver resolver ctx platform moduleName = Inr (SourceFile fp other) \<and>
    \<not> startsWith fp reactNativePath \<longrightarrow>
      (\<forall>redirectPath.
         redirectModulePath ctx (replace_str moduleName ''react-native'' reactNativePath) =
           Some redirectPath \<longrightarrow>
         fst (reactNativeStrictVersionResolver enabled reactNativePath resolver ctx moduleName
                platform st) =
           strictResult (getStrictResolver resolver ctx platform redirectPath)) \<and>
      (redirectModulePath ctx (replace_str moduleName ''react-native'' reactNativePath) = None \<longrightarrow>
         reactNativeStrictVersionResolver enabled reactNativePath resolver ctx moduleName
           platform st = (Inr None, st)) \<and>
      (CHR ''$'' \<notin> set reactNativePath \<longrightarrow>
         replace_str moduleName ''react-native'' reactNativePath =
           reactNativePath @ drop (length ''react-native'') moduleName)) \<and>
   (\<not> warnedMultipleReactNativeVersions st \<longrightarrow>
      warnings (strictVersionRun enabled reactNativePath resolver requests st) =
        warnings st @
        (if list_ex (redirects enabled reactNativePath resolver) requests
         then [multipleVersionsWarning reactNativePath] else []))"
proof (intro conjI impI allI)
  fix redirectPath
  assume a: "enabled \<and> (moduleName = ''react-native'' \<or> startsWith moduleName ''react-native/'') \<and>
    getStrictResolver resolver ctx platform moduleName = Inr (SourceFile fp other) \<and>
    \<not> startsWith fp reactNativePath"
    and b: "redirectModulePath ctx (replace_str moduleName ''react-native'' reactNativePath) =
           Some redirectPath"
  show "fst (reactNativeStrictVersionResolver enabled reactNativePath resolver ctx moduleName
                platform st) =
           strictResult (getStrictResolver resolver ctx platform redirectPath)"
    using a b by (auto simp: reactNativeStrictVersionResolver_def strictResult_def split: sum.splits)
next
  assume a: "enabled \<and> (moduleName = ''react-native'' \<or> startsWith moduleName ''react-native/'') \<and>
    getStrictResolver resolver ctx platform moduleName = Inr (SourceFile fp other) \<and>
    \<not> startsWith fp reactNativePath"
    and b: "redirectModulePath ctx (replace_str moduleName ''react-native'' reactNativePath) = None"
  show "reactNativeStrictVersionResolver enabled reactNativePath resolver ctx moduleName
           platform st = (Inr None, st)"
    using a b by (auto simp: reactNativeStrictVersionResolver_def)
next
  assume a: "enabled \<and> (moduleName = ''react-native'' \<or> startsWith moduleName ''react-native/'') \<and>
    getStrictResolver resolver ctx platform moduleName = Inr (SourceFile fp other) \<and>
    \<not> startsWith fp reactNativePath"
    and b: "CHR ''$'' \<notin> set reactNativePath"
  from a have "prefix ''react-native'' moduleName" by (simp add: validated_prefix)
  then show "replace_str moduleName ''react-native'' reactNativePath =
           reactNativePath @ drop (length ''react-native'') moduleName"
    using b by (rule replace_str_prefix)
next
  assume "\<not> warnedMultipleReactNativeVersions st"
  then show "warnings (strictVersionRun enabled reactNativePath resolver requests st) =
        warnings st @
        (if list_ex (redirects enabled reactNativePath resolver) requests
         then [multipleVersionsWarning reactNativePath] else [])"
    by (simp add: strictVersionRun_warnings)
qed


theorem strictVersion_redirects_and_warns_once_witness:
  "fst (reactNativeStrictVersionResolver True ''/app/node_modules/react-native'' sampleResolver
     (sampleContext None) ''react-native'' (Some ''ios'') initialState) =
     Inr (Some (SourceFile ''/app/node_modules/react-native/index.js'' [])) \<and>
   reactNativeStrictVersionResolver True ''/app/node_modules/react-native'' sampleResolver
     ((sampleContext None)\<lparr>redirectModulePath := (\<lambda>p. None)\<rparr>) ''react-native'' (Some ''ios'')
     initialState = (Inr None, initialState) \<and>
   warnings (strictVersionRun True ''/app/node_modules/react-native'' sampleResolver
     [(sampleContext None, ''react-native'', Some ''ios''),
      (sampleContext None, ''fs'', Some ''ios''),
      (sampleContext None, ''react-native'', Some ''android'')] initialState) =
     [''Multiple React Native versions detected, resolving only: /app/node_modules/react-native'']"
  using strictVersion_redirects_and_warns_once [of True "''react-native''" sampleResolver
      "sampleContext None" "Some ''ios''" "''/app/packages/ui/node_modules/react-native/index.js''"
      "[]" "''/app/node_modules/react-native''" initialState
      "[(sampleContext None, ''react-native'', Some ''ios''),
        (sampleContext None, ''fs'', Some ''ios''),
        (sampleContext None, ''react-native'', Some ''android'')]"]
    strictVersion_redirects_and_warns_once [of True "''react-native''" sampleResolver
      "(sampleContext None)\<lparr>redirectModulePath := (\<lambda>p. None)\<rparr>" "Some ''ios''"
      "''/app/packages/ui/node_modules/react-native/index.js''"
      "[]" "''/app/node_modules/react-native''" initialState "[]"]
  by (simp add: sampleResolver_react_native sample_outside_canonical sample_replace_str
      sampleResolver_canonical strictResult_def sample_redirects sample_not_redirects
      multipleVersionsWarning_def initialState_def)


lemma nestedCopy_react_native:
  "getStrictResolver nestedCopyResolver c platform ''react-native'' =
     Inr (SourceFile
       ''/app/node_modules/react-native-gesture-handler/node_modules/react-native/index.js'' [])"
  by (simp add: getStrictResolver_def nestedCopyResolver_def)

lemma nestedCopy_canonical:
  "getStrictResolver nestedCopyResolver c platform ''/app/node_modules/react-native'' =
     Inr (SourceFile ''/app/node_modules/react-native/index.js'' [])"
  by (simp add: getStrictResolver_def nestedCopyResolver_def)

text \<open>
  C6. The claim has every resolution outside the canonical directory redirected. The code
  tests \<^verbatim>\<open>filePath.startsWith(reactNativePath)\<close> with no separator after the directory:
  with the canonical copy in \<^verbatim>\<open>/app/node_modules/react-native\<close>, the copy that
  \<^verbatim>\<open>react-native-gesture-handler\<close> brings along lies outside that directory, yet its path
  starts with the directory's name, and the enabled stage returns it as it is, without
  redirect or warning, although the canonical copy resolves. And a dollar sign in the
  canonical directory is read as a pattern by \<^verbatim>\<open>String.prototype.replace\<close>, so the
  redirected specifier leaves the canonical root.
\<close>

theorem strictVersion_keeps_nested_copy:
  "reactNativeStrictVersionResolver True ''/app/node_modules/react-native'' nestedCopyResolver
     (sampleContext None) ''react-native'' (Some ''ios'') initialState =
     (Inr (Some (SourceFile
        ''/app/node_modules/react-native-gesture-handler/node_modules/react-native/index.js'' [])),
      initialState) \<and>
   \<not> startsWith
       ''/app/node_modules/react-native-gesture-handler/node_modules/react-native/index.js''
       ''/app/node_modules/react-native/'' \<and>
   getStrictResolver nestedCopyResolver (sampleContext None) (Some ''ios'')
     ''/app/node_modules/react-native'' =
     Inr (SourceFile ''/app/node_modules/react-native/index.js'' []) \<and>
   replace_str ''react-native/index'' ''react-native'' ''/srv/$&/node_modules/react-native'' =
     ''/srv/react-native/node_modules/react-native/index''"
  by (simp add: reactNativeStrictVersionResolver_def nestedCopy_react_native nestedCopy_canonical
      startsWith_def replace_str_def)

theorem strictVersion_keeps_nested_copy_witness:
  "fst (reactNativeStrictVersionResolver True ''/app/node_modules/react-native'' nestedCopyResolver
     (sampleContext None) ''react-native'' (Some ''ios'') initialState) =
     Inr (Some (SourceFile
        ''/app/node_modules/react-native-gesture-handler/node_modules/react-native/index.js'' [])) \<and>
   warnings (snd (reactNativeStrictVersionResolver True ''/app/node_modules/react-native''
     nestedCopyResolver (sampleContext None) ''react-native'' (Some ''ios'') initialState)) = []"
  using strictVersion_keeps_nested_copy by (simp add: initialState_def)

section \<open>The polyfill list\<close>

text \<open>
  C9. For every platform \<^verbatim>\<open>getPolyfills\<close> registers the environment-variables module and
  the external-require module. On \<^verbatim>\<open>web\<close> it returns the two virtual ids and the resolved
  \<^verbatim>\<open>@react-native/js-polyfills/error-guard\<close>, three entries and nothing of the original
  list; on any other platform it returns the original list with the two virtual ids
  appended.
\<close>

theorem getPolyfills_list:
  "virtualModules (snd (getPolyfills host config platform st)) =
     (virtualModules st)
       (CHR 0x00 # ''polyfill:environment-variables'' \<mapsto> ''//'',
        CHR 0x00 # ''polyfill:external-require'' \<mapsto>
          (if platform = Some ''web'' then externalRequire_web else externalRequire_native)) \<and>
   (platform = Some ''web'' \<longrightarrow>
      (\<forall>errorGuard.
         require_resolve host ''@react-native/js-polyfills/error-guard'' = Inr errorGuard \<longrightarrow>
         fst (getPolyfills host config platform st) =
           Inr [CHR 0x00 # ''polyfill:external-require'',
                CHR 0x00 # ''polyfill:environment-variables'', errorGuard])) \<and>
   (platform \<noteq> Some ''web'' \<longrightarrow>
      (\<forall>polyfills.
         originalGetPolyfills config platform = Inr polyfills \<longrightarrow>
         fst (getPolyfills host config platform st) =
           Inr (polyfills @ [CHR 0x00 # ''polyfill:external-require'',
                             CHR 0x00 # ''polyfill:environment-variables''])))"
  by (auto simp: getPolyfills_def Let_def setVirtualModule_def virtualEnvVarId_def
      virtualModuleId_def NUL_def split: sum.splits)

theorem getPolyfills_list_witness:
  "fst (getPolyfills sampleHost sampleConfig (Some ''web'') initialState) =
     Inr [CHR 0x00 # ''polyfill:external-require'', CHR 0x00 # ''polyfill:environment-variables'',
          ''/app/node_modules/@react-native/js-polyfills/error-guard.js''] \<and>
   fst (getPolyfills sampleHost sampleConfig (Some ''ios'') initialState) =
     Inr [''/app/node_modules/react-native/polyfill.js'',
          CHR 0x00 # ''polyfill:external-require'', CHR 0x00 # ''polyfill:environment-variables''] \<and>
   virtualModules (snd (getPolyfills sampleHost sampleConfig (Some ''ios'') initialState))
     (CHR 0x00 # ''polyfill:environment-variables'') = Some ''//''"
  using getPolyfills_list [of sampleHost sampleConfig "Some ''web''" initialState]
    getPolyfills_list [of sampleHost sampleConfig "Some ''ios''" initialState]
  by (simp add: sampleHost_def sampleConfig_def originalGetPolyfills_def)


section \<open>Post-resolution rewrites keep the kind of result\<close>

lemma getAssetRegistryPath_virtualModules:
  "virtualModules (snd (getAssetRegistryPath host config st)) = virtualModules st"
  by (simp add: getAssetRegistryPath_def split: sum.splits)

lemma getAssetRegistryPath_cached:
  "getAssetRegistryPath host config st = (Inr p, st') \<Longrightarrow> assetRegistryPath_cache st' = Some p"
  by (cases "assetRegistryPath_cache st")
     (auto simp: getAssetRegistryPath_def split: if_splits sum.splits)

lemma rewriteResolver_shortcut:
  assumes "platform = Some ''web'' \<and> reactNativeWebRegExp (originModulePath ctx) \<and>
           includes_str moduleName ''/modules/AssetRegistry''"
    and "rewriteResolver host config resolver shim canary canaryEnabled ctx moduleName platform st =
           (Inr out, st')"
  shows "\<exists>p. out = Some (SourceFile p []) \<and> fst (getAssetRegistryPath host config st) = Inr p"
  using assms by (auto simp: rewriteResolver_def split: prod.splits sum.splits)

lemma rewriteResolver_error:
  assumes "\<not> (platform = Some ''web'' \<and> reactNativeWebRegExp (originModulePath ctx) \<and>
           includes_str moduleName ''/modules/AssetRegistry'')"
    and "getStrictResolver resolver ctx platform moduleName = Inl err"
  shows "rewriteResolver host config resolver shim canary canaryEnabled ctx moduleName platform st =
           (Inl err, st)"
  using assms by (auto simp: rewriteResolver_def)

lemma rewriteResolver_other:
  assumes "\<not> (platform = Some ''web'' \<and> reactNativeWebRegExp (originModulePath ctx) \<and>
           includes_str moduleName ''/modules/AssetRegistry'')"
    and "getStrictResolver resolver ctx platform moduleName = Inr res"
    and "resolutionType res \<noteq> TSourceFile"
  shows "rewriteResolver host config resolver shim canary canaryEnabled ctx moduleName platform st =
           (Inr (Some res), st)"
  using assms by (cases res) (auto simp: rewriteResolver_def)

lemma rewriteResolver_sourceFile:
  assumes "\<not> (platform = Some ''web'' \<and> reactNativeWebRegExp (originModulePath ctx) \<and>
           includes_str moduleName ''/modules/AssetRegistry'')"
    and "getStrictResolver resolver ctx platform moduleName = Inr (SourceFile fp other)"
    and "rewriteResolver host config resolver shim canary canaryEnabled ctx moduleName platform st =
           (Inr out, st')"
  shows "\<exists>fp'. out = Some (SourceFile fp' other) \<and>
           (fp' = fp \<or>
            platform = Some ''web'' \<and>
              fp' = CHR 0x00 # ''shim:'' @ dropToNodeModules (normalizeSlashes fp) \<or>
            platform \<noteq> Some ''web'' \<and> canaryEnabled \<and>
              canary (dropToNodeModules (normalizeSlashes fp)) = Some fp')"
proof (cases "platform = Some ''web''")
  case True
  with assms show ?thesis
    by (auto simp: rewriteResolver_def Let_def shimVirtualId_def NUL_def
        split: if_splits sum.splits)
next
  case False
  with assms show ?thesis
    by (cases "canary (dropToNodeModules (normalizeSlashes fp))")
       (auto simp: rewriteResolver_def Let_def split: if_splits)
qed

lemma rewriteResolver_throws:
  assumes "\<not> (platform = Some ''web'' \<and> reactNativeWebRegExp (originModulePath ctx) \<and>
           includes_str moduleName ''/modules/AssetRegistry'')"
    and "getStrictResolver resolver ctx platform moduleName = Inr res"
    and "rewriteResolver host config resolver shim canary canaryEnabled ctx moduleName platform st =
           (Inl err, st')"
  shows "\<exists>file. fs_readFileSync host file = Inl err"
proof (cases res)
  case (SourceFile fp other)
  with assms show ?thesis
    by (auto simp: rewriteResolver_def Let_def split: if_splits sum.splits)
next
  case (AssetFiles ps)
  with assms show ?thesis by (auto simp: rewriteResolver_def)
next
  case Empty
  with assms show ?thesis by (auto simp: rewriteResolver_def)
qed


text \<open>
  C8. In the AssetRegistry short cut on \<^verbatim>\<open>web\<close> the stage returns a source file.
  Otherwise what it returns has the \<^verbatim>\<open>type\<close> of the strict resolution: a result that
  is not a source file is returned unchanged, and a source file stays a source file with
  the same further fields, its path either kept, or replaced by the shim's virtual id on
  \<^verbatim>\<open>web\<close>, or replaced by the canary file on another platform. An error of the strict
  resolution is thrown on, and the stage throws nothing else but a failed read of a shim.
\<close>

theorem rewriteResolver_keeps_type:
  "(platform = Some ''web'' \<and> reactNativeWebRegExp (originModulePath ctx) \<and>
    includes_str moduleName ''/modules/AssetRegistry'' \<longrightarrow>
      (\<forall>out st'.
         rewriteResolver host config resolver shim canary canaryEnabled ctx moduleName platform st =
           (Inr out, st') \<longrightarrow>
         (\<exists>p. out = Some (SourceFile p [])))) \<and>
   (\<not> (platform = Some ''web'' \<and> reactNativeWebRegExp (originModulePath ctx) \<and>
       includes_str moduleName ''/modules/AssetRegistry'') \<longrightarrow>
      (\<forall>res out st'.
         getStrictResolver resolver ctx platform moduleName = Inr res \<and>
         rewriteResolver host config resolver shim canary canaryEnabled ctx moduleName platform st =
           (Inr out, st') \<longrightarrow>
         (\<exists>res'. out = Some res' \<and> resolutionType res' = resolutionType res)) \<and>
      (\<forall>res.
         getStrictResolver resolver ctx platform moduleName = Inr res \<and>
         resolutionType res \<noteq> TSourceFile \<longrightarrow>
         rewriteResolver host config resolver shim canary canaryEnabled ctx moduleName platform st =
           (Inr (Some res), st)) \<and>
      (\<forall>fp other out st'.
         getStrictResolver resolver ctx platform moduleName = Inr (SourceFile fp other) \<and>
         rewriteResolver host config resolver shim canary canaryEnabled ctx moduleName platform st =
           (Inr out, st') \<longrightarrow>
         (\<exists>fp'. out = Some (SourceFile fp' other) \<and>
            (fp' = fp \<or>
             platform = Some ''web'' \<and>
               fp' = CHR 0x00 # ''shim:'' @ dropToNodeModules (normalizeSlashes fp) \<or>
             platform \<noteq> Some ''web'' \<and> canaryEnabled \<and>
               canary (dropToNodeModules (normalizeSlashes fp)) = Some fp'))) \<and>
      (\<forall>err.
         getStrictResolver resolver ctx platform moduleName = Inl err \<longrightarrow>
         rewriteResolver host config resolver shim canary canaryEnabled ctx moduleName platform st =
           (Inl err, st)) \<and>
      (\<forall>res err st'.
         getStrictResolver resolver ctx platform moduleName = Inr res \<and>
         rewriteResolver host config resolver shim canary canaryEnabled ctx moduleName platform st =
           (Inl err, st') \<longrightarrow>
         (\<exists>file. fs_readFileSync host file = Inl err)))"
proof (intro conjI impI allI)
  fix out st'
  assume "platform = Some ''web'' \<and> reactNativeWebRegExp (originModulePath ctx) \<and>
    includes_str moduleName ''/modules/AssetRegistry''"
    and "rewriteResolver host config resolver shim canary canaryEnabled ctx moduleName platform st =
           (Inr out, st')"
  from rewriteResolver_shortcut [OF this] show "\<exists>p. out = Some (SourceFile p [])" by blast
next
  fix res out st'
  assume n: "\<not> (platform = Some ''web'' \<and> reactNativeWebRegExp (originModulePath ctx) \<and>
       includes_str moduleName ''/modules/AssetRegistry'')"
    and a: "getStrictResolver resolver ctx platform moduleName = Inr res \<and>
         rewriteResolver host config resolver shim canary canaryEnabled ctx moduleName platform st =
           (Inr out, st')"
  show "\<exists>res'. out = Some res' \<and> resolutionType res' = resolutionType res"
  proof (cases "resolutionType res = TSourceFile")
    case True
    then obtain fp other where "res = SourceFile fp other" by (cases res) auto
    with rewriteResolver_sourceFile [OF n, of resolver fp other host config shim canary
        canaryEnabled st out st'] a
    show ?thesis by auto
  next
    case False
    with rewriteResolver_other [OF n, of resolver res host config shim canary canaryEnabled st] a
    show ?thesis by auto
  qed
next
  fix res
  assume n: "\<not> (platform = Some ''web'' \<and> reactNativeWebRegExp (originModulePath ctx) \<and>
       includes_str moduleName ''/modules/AssetRegistry'')"
    and a: "getStrictResolver resolver ctx platform moduleName = Inr res \<and>
         resolutionType res \<noteq> TSourceFile"
  then show "rewriteResolver host config resolver shim canary canaryEnabled ctx moduleName platform st =
           (Inr (Some res), st)"
    by (simp add: rewriteResolver_other)
next
  fix fp other out st'
  assume n: "\<not> (platform = Some ''web'' \<and> reactNativeWebRegExp (originModulePath ctx) \<and>
       includes_str moduleName ''/modules/AssetRegistry'')"
    and a: "getStrictResolver resolver ctx platform moduleName = Inr (SourceFile fp other) \<and>
         rewriteResolver host config resolver shim canary canaryEnabled ctx moduleName platform st =
           (Inr out, st')"
  from a have a1: "getStrictResolver resolver ctx platform moduleName = Inr (SourceFile fp other)"
    and a2: "rewriteResolver host config resolver shim canary canaryEnabled ctx moduleName platform st =
           (Inr out, st')" by simp_all
  from rewriteResolver_sourceFile [OF n a1 a2]
  show "\<exists>fp'. out = Some (SourceFile fp' other) \<and>
            (fp' = fp \<or>
             platform = Some ''web'' \<and>
               fp' = CHR 0x00 # ''shim:'' @ dropToNodeModules (normalizeSlashes fp) \<or>
             platform \<noteq> Some ''web'' \<and> canaryEnabled \<and>
               canary (dropToNodeModules (normalizeSlashes fp)) = Some fp')" .
next
  fix err
  assume "\<not> (platform = Some ''web'' \<and> reactNativeWebRegExp (originModulePath ctx) \<and>
       includes_str moduleName ''/modules/AssetRegistry'')"
    and "getStrictResolver resolver ctx platform moduleName = Inl err"
  then show "rewriteResolver host config resolver shim canary canaryEnabled ctx moduleName platform st =
           (Inl err, st)"
    by (rule rewriteResolver_error)
next
  fix res err st'
  assume n: "\<not> (platform = Some ''web'' \<and> reactNativeWebRegExp (originModulePath ctx) \<and>
       includes_str moduleName ''/modules/AssetRegistry'')"
    and a: "getStrictResolver resolver ctx platform moduleName = Inr res \<and>
         rewriteResolver host config resolver shim canary canaryEnabled ctx moduleName platform st =
           (Inl err, st')"
  from a have a1: "getStrictResolver resolver ctx platform moduleName = Inr res"
    and a2: "rewriteResolver host config resolver shim canary canaryEnabled ctx moduleName platform st =
           (Inl err, st')" by simp_all
  from rewriteResolver_throws [OF n a1 a2] show "\<exists>file. fs_readFileSync host file = Inl err" .
qed

theorem rewriteResolver_keeps_type_witness:
  "rewriteResolver sampleHost sampleConfig sampleResolver sampleShim sampleCanary True
     (sampleContext None) ''react-native-web'' (Some ''web'') initialState =
     (Inr (Some (SourceFile (CHR 0x00 # ''shim:react-native-web/dist/index.js'') [])),
      initialState\<lparr>virtualModules := (virtualModules initialState)
        (CHR 0x00 # ''shim:react-native-web/dist/index.js'' \<mapsto> ''module.exports = {};'')\<rparr>) \<and>
   rewriteResolver sampleHost sampleConfig sampleResolver sampleShim sampleCanary True
     (sampleContext None) ''path'' (Some ''ios'') initialState =
     (Inr (Some (SourceFile ''/cli/static/canary/path/index.js'' [])), initialState) \<and>
   rewriteResolver sampleHost sampleConfig sampleResolver sampleShim sampleCanary True
     (sampleContext None) ''./logo.png'' (Some ''ios'') initialState =
     (Inr (Some (AssetFiles [''/app/logo.png''])), initialState)"
  using rewriteResolver_keeps_type [of "Some ''ios''" "sampleContext None" "''./logo.png''"
      sampleHost sampleConfig sampleResolver sampleShim sampleCanary True initialState]
  by (simp add: sample_rewrite_web sample_rewrite_native sample_origin_not_rnw sampleResolver_logo)

section \<open>Virtual ids carry the reserved prefix\<close>

lemma getPolyfills_changed:
  "virtualModules (snd (getPolyfills host config platform st)) k \<noteq> virtualModules st k \<Longrightarrow>
   startsWith k [CHR 0x00]"
  by (auto simp: getPolyfills_def Let_def setVirtualModule_def virtualEnvVarId_def
      virtualModuleId_def NUL_def startsWith_def split: sum.splits if_splits)

lemma nodeExternals_changed:
  "virtualModules (snd (nodeExternalsResolver isNodeExternal resolver ctx moduleName platform st)) k
     \<noteq> virtualModules st k \<Longrightarrow> startsWith k [CHR 0x00]"
  by (auto simp: nodeExternalsResolver_def Let_def setVirtualModule_def nodeVirtualModuleId_def
      NUL_def startsWith_def split: option.splits sum.splits if_splits)

lemma nodeExternals_path:
  "nodeExternalsResolver isNodeExternal resolver ctx moduleName platform st =
     (Inr (Some (SourceFile fp other)), st') \<Longrightarrow>
   startsWith fp [CHR 0x00] \<and> virtualModules st' fp \<noteq> None \<or>
   getOptionalResolver resolver ctx platform moduleName = Inr (Some (SourceFile fp other))"
  by (auto simp: nodeExternalsResolver_def Let_def setVirtualModule_def nodeVirtualModuleId_def
      NUL_def startsWith_def split: option.splits sum.splits if_splits)

lemma applyExternals_changed:
  "virtualModules (snd (applyExternals rules ctx moduleName platform st)) k \<noteq> virtualModules st k
   \<Longrightarrow> startsWith k [CHR 0x00]"
  by (induction rules)
     (auto simp: setVirtualModule_def customVirtualModuleId_def NUL_def startsWith_def
      split: if_splits)

lemma applyExternals_path:
  "applyExternals rules ctx moduleName platform st = (Inr (Some (SourceFile fp other)), st') \<Longrightarrow>
   startsWith fp [CHR 0x00] \<and> virtualModules st' fp \<noteq> None"
  by (induction rules)
     (auto simp: setVirtualModule_def customVirtualModuleId_def NUL_def startsWith_def
      split: if_splits)

lemma customExternals_changed:
  "virtualModules (snd (customExternalsResolver rules ctx moduleName platform st)) k
     \<noteq> virtualModules st k \<Longrightarrow> startsWith k [CHR 0x00]"
  by (auto simp: customExternalsResolver_def applyExternals_changed split: if_splits)

lemma customExternals_path:
  "customExternalsResolver rules ctx moduleName platform st =
     (Inr (Some (SourceFile fp other)), st') \<Longrightarrow>
   startsWith fp [CHR 0x00] \<and> virtualModules st' fp \<noteq> None"
  by (auto simp: customExternalsResolver_def split: if_splits dest: applyExternals_path)

lemma rewriteResolver_changed:
  "virtualModules (snd (rewriteResolver host config resolver shim canary canaryEnabled ctx
      moduleName platform st)) k \<noteq> virtualModules st k \<Longrightarrow> startsWith k [CHR 0x00]"
proof (cases "platform = Some ''web'' \<and> reactNativeWebRegExp (originModulePath ctx) \<and>
    includes_str moduleName ''/modules/AssetRegistry''")
  case True
  assume c: "virtualModules (snd (rewriteResolver host config resolver shim canary canaryEnabled ctx
      moduleName platform st)) k \<noteq> virtualModules st k"
  from True have "virtualModules (snd (rewriteResolver host config resolver shim canary
      canaryEnabled ctx moduleName platform st)) =
      virtualModules (snd (getAssetRegistryPath host config st))"
    by (cases "getAssetRegistryPath host config st")
       (auto simp: rewriteResolver_def split: sum.splits)
  with c show ?thesis by (simp add: getAssetRegistryPath_virtualModules)
next
  case False
  assume c: "virtualModules (snd (rewriteResolver host config resolver shim canary canaryEnabled ctx
      moduleName platform st)) k \<noteq> virtualModules st k"
  show ?thesis
  proof (cases "getStrictResolver resolver ctx platform moduleName")
    case (Inl err)
    with False c show ?thesis by (simp add: rewriteResolver_error)
  next
    case (Inr res)
    show ?thesis
    proof (cases res)
      case (SourceFile fp other)
      with False Inr c show ?thesis
        by (auto simp: rewriteResolver_def Let_def shimVirtualId_def NUL_def startsWith_def
            setVirtualModule_def split: if_splits sum.splits)
    next
      case (AssetFiles ps)
      with False Inr c show ?thesis by (simp add: rewriteResolver_other)
    next
      case Empty
      with False Inr c show ?thesis by (simp add: rewriteResolver_other)
    qed
  qed
qed

lemma rewriteResolver_path:
  assumes r: "rewriteResolver host config resolver shim canary canaryEnabled ctx moduleName
      platform st = (Inr (Some (SourceFile fp other)), st')"
  shows "startsWith fp [CHR 0x00] \<and> virtualModules st' fp \<noteq> None \<or>
         getStrictResolver resolver ctx platform moduleName = Inr (SourceFile fp other) \<or>
         (\<exists>normalName. canary normalName = Some fp) \<or>
         assetRegistryPath_cache st' = Some fp"
proof (cases "platform = Some ''web'' \<and> reactNativeWebRegExp (originModulePath ctx) \<and>
    includes_str moduleName ''/modules/AssetRegistry''")
  case True
  with r have "getAssetRegistryPath host config st = (Inr fp, st')"
    by (cases "getAssetRegistryPath host config st")
       (auto simp: rewriteResolver_def split: sum.splits)
  then show ?thesis by (simp add: getAssetRegistryPath_cached)
next
  case False
  show ?thesis
  proof (cases "getStrictResolver resolver ctx platform moduleName")
    case (Inl err)
    with False r show ?thesis by (simp add: rewriteResolver_error)
  next
    case (Inr res)
    show ?thesis
    proof (cases res)
      case (SourceFile fp0 other0)
      show ?thesis
      proof (cases "platform = Some ''web''")
        case True
        with False Inr SourceFile r show ?thesis
          by (auto simp: rewriteResolver_def Let_def shimVirtualId_def NUL_def startsWith_def
              setVirtualModule_def hasVirtualModule_def split: if_splits sum.splits)
      next
        case native: False
        with False Inr SourceFile r show ?thesis
          by (cases "canary (dropToNodeModules (normalizeSlashes fp0))")
             (auto simp: rewriteResolver_def Let_def split: if_splits)
      qed
    next
      case (AssetFiles ps)
      with False Inr r show ?thesis by (simp add: rewriteResolver_other)
    next
      case Empty
      with False Inr r show ?thesis by (simp add: rewriteResolver_other)
    qed
  qed
qed


lemma applyUniversalAliases_result:
  "applyUniversalAliases resolver ctx platform moduleName universalAliases = Inr None \<or>
   (\<exists>specifier. applyUniversalAliases resolver ctx platform moduleName universalAliases =
      strictResult (getStrictResolver resolver ctx platform specifier))"
  by (induction universalAliases) (auto split: option.splits)

lemma aliasResolver_frame:
  "virtualModules (snd (aliasResolver host config resolver resolverOther ctx moduleName platform
      st)) = virtualModules st \<and>
   (fst (aliasResolver host config resolver resolverOther ctx moduleName platform st) = Inr None \<or>
    (\<exists>specifier. fst (aliasResolver host config resolver resolverOther ctx moduleName platform
       st) = strictResult (getStrictResolver resolver ctx platform specifier)) \<or>
    (\<exists>v. fst (aliasResolver host config resolver resolverOther ctx moduleName platform st) =
       strictResult (resolverOther (ctx\<lparr>resolveRequest := False\<rparr>) v platform)) \<or>
    (\<exists>err. aliasLookup host platform moduleName = Inl err \<and>
       fst (aliasResolver host config resolver resolverOther ctx moduleName platform st) =
         Inl err))"
proof (cases "aliasLookup host platform moduleName")
  case (Inl err)
  then show ?thesis by (simp add: aliasResolver_def)
next
  case (Inr v)
  show ?thesis
  proof (cases "jsTruthy v")
    case True
    with Inr show ?thesis
      by (cases v) (auto simp: aliasResolver_def getStrictResolver_value_def)
  next
    case False
    obtain found st' where g: "getUniversalAliases host config st = (found, st')"
      by (cases "getUniversalAliases host config st")
    then have "virtualModules st' = virtualModules st"
      by (auto simp: getUniversalAliases_def Let_def split: option.splits)
    with Inr False g applyUniversalAliases_result [of resolver ctx platform moduleName found]
    show ?thesis by (auto simp: aliasResolver_def)
  qed
qed

lemma strictVersion_frame:
  "virtualModules (snd (reactNativeStrictVersionResolver enabled reactNativePath resolver ctx
      moduleName platform st)) = virtualModules st"
  by (simp add: strictVersion_step Log_warn_def)

lemma strictVersion_result:
  "fst (reactNativeStrictVersionResolver enabled reactNativePath resolver ctx moduleName
      platform st) = Inr None \<or>
   (\<exists>specifier. fst (reactNativeStrictVersionResolver enabled reactNativePath resolver ctx
      moduleName platform st) = strictResult (getStrictResolver resolver ctx platform specifier))"
proof (cases "enabled \<and> (moduleName = ''react-native'' \<or> startsWith moduleName ''react-native/'')")
  case False
  then show ?thesis by (auto simp: reactNativeStrictVersionResolver_def)
next
  case valid: True
  show ?thesis
  proof (cases "getStrictResolver resolver ctx platform moduleName")
    case (Inl err)
    with valid have "fst (reactNativeStrictVersionResolver enabled reactNativePath resolver ctx
      moduleName platform st) = strictResult (getStrictResolver resolver ctx platform moduleName)"
      by (simp add: reactNativeStrictVersionResolver_def strictResult_def)
    then show ?thesis by blast
  next
    case (Inr resolved)
    show ?thesis
    proof (cases "case resolved of SourceFile fp other \<Rightarrow> startsWith fp reactNativePath | _ \<Rightarrow> True")
      case True
      with valid Inr have "fst (reactNativeStrictVersionResolver enabled reactNativePath resolver
        ctx moduleName platform st) = strictResult (getStrictResolver resolver ctx platform moduleName)"
        by (simp add: reactNativeStrictVersionResolver_def strictResult_def)
      then show ?thesis by blast
    next
      case outside: False
      show ?thesis
      proof (cases "redirectModulePath ctx (replace_str moduleName ''react-native'' reactNativePath)")
        case None
        with valid Inr outside show ?thesis
          by (simp add: reactNativeStrictVersionResolver_def)
      next
        case (Some redirectPath)
        with valid Inr outside have "fst (reactNativeStrictVersionResolver enabled reactNativePath
          resolver ctx moduleName platform st) =
          strictResult (getStrictResolver resolver ctx platform redirectPath)"
          by (cases "getStrictResolver resolver ctx platform redirectPath")
             (simp_all add: reactNativeStrictVersionResolver_def strictResult_def)
        then show ?thesis by blast
      qed
    qed
  qed
qed

text \<open>
  C10. Every id under which a virtual module is registered (by \<^verbatim>\<open>getPolyfills\<close>, by the
  two externals stages and by the rewriter) starts with \<^verbatim>\<open>\0\<close>; the alias stage and the
  strict-version stage register nothing. A path returned in a source file either starts
  with \<^verbatim>\<open>\0\<close> and is registered, or is a file that the underlying resolver, the canary
  table or the asset-registry lookup returned (the alias stage hands the underlying
  resolver the replacement, or the inherited value that the alias table gave).
\<close>

theorem virtual_ids_start_with_NUL:
  "startsWith virtualEnvVarId [CHR 0x00] \<and> startsWith virtualModuleId [CHR 0x00] \<and>
   (\<forall>k. virtualModules (snd (getPolyfills host config platform st)) k \<noteq> virtualModules st k \<longrightarrow>
        startsWith k [CHR 0x00]) \<and>
   (\<forall>k. virtualModules (snd (nodeExternalsResolver isNodeExternal resolver ctx moduleName
           platform st)) k \<noteq> virtualModules st k \<longrightarrow>
        startsWith k [CHR 0x00]) \<and>
   (\<forall>fp other st'.
      nodeExternalsResolver isNodeExternal resolver ctx moduleName platform st =
        (Inr (Some (SourceFile fp other)), st') \<longrightarrow>
      startsWith fp [CHR 0x00] \<and> virtualModules st' fp \<noteq> None \<or>
      getOptionalResolver resolver ctx platform moduleName = Inr (Some (SourceFile fp other))) \<and>
   (\<forall>k. virtualModules (snd (customExternalsResolver rules ctx moduleName platform st)) k \<noteq>
          virtualModules st k \<longrightarrow>
        startsWith k [CHR 0x00]) \<and>
   (\<forall>fp other st'.
      customExternalsResolver rules ctx moduleName platform st =
        (Inr (Some (SourceFile fp other)), st') \<longrightarrow>
      startsWith fp [CHR 0x00] \<and> virtualModules st' fp \<noteq> None) \<and>
   (\<forall>k. virtualModules (snd (rewriteResolver host config resolver shim canary canaryEnabled ctx
           moduleName platform st)) k \<noteq> virtualModules st k \<longrightarrow>
        startsWith k [CHR 0x00]) \<and>
   (\<forall>fp other st'.
      rewriteResolver host config resolver shim canary canaryEnabled ctx moduleName platform st =
        (Inr (Some (SourceFile fp other)), st') \<longrightarrow>
      startsWith fp [CHR 0x00] \<and> virtualModules st' fp \<noteq> None \<or>
      getStrictResolver resolver ctx platform moduleName = Inr (SourceFile fp other) \<or>
      (\<exists>normalName. canary normalName = Some fp) \<or>
      assetRegistryPath_cache st' = Some fp) \<and>
   virtualModules (snd (aliasResolver host config resolver resolverOther ctx moduleName platform
      st)) = virtualModules st \<and>
   (fst (aliasResolver host config resolver resolverOther ctx moduleName platform st) = Inr None \<or>
    (\<exists>specifier. fst (aliasResolver host config resolver resolverOther ctx moduleName platform
       st) = strictResult (getStrictResolver resolver ctx platform specifier)) \<or>
    (\<exists>v. fst (aliasResolver host config resolver resolverOther ctx moduleName platform st) =
       strictResult (resolverOther (ctx\<lparr>resolveRequest := False\<rparr>) v platform)) \<or>
    (\<exists>err. aliasLookup host platform moduleName = Inl err \<and>
       fst (aliasResolver host config resolver resolverOther ctx moduleName platform st) =
         Inl err)) \<and>
   virtualModules (snd (reactNativeStrictVersionResolver enabled reactNativePath resolver ctx
      moduleName platform st)) = virtualModules st \<and>
   (fst (reactNativeStrictVersionResolver enabled reactNativePath resolver ctx moduleName
      platform st) = Inr None \<or>
    (\<exists>specifier. fst (reactNativeStrictVersionResolver enabled reactNativePath resolver ctx
       moduleName platform st) = strictResult (getStrictResolver resolver ctx platform specifier)))"
proof (intro conjI allI impI)
  show "startsWith virtualEnvVarId [CHR 0x00]" "startsWith virtualModuleId [CHR 0x00]"
    by (simp_all add: startsWith_def virtualEnvVarId_def virtualModuleId_def NUL_def)
qed (fact getPolyfills_changed nodeExternals_changed nodeExternals_path customExternals_changed
      customExternals_path [THEN conjunct1] customExternals_path [THEN conjunct2]
      rewriteResolver_changed rewriteResolver_path
      aliasResolver_frame [THEN conjunct1] aliasResolver_frame [THEN conjunct2]
      strictVersion_frame strictVersion_result)+

theorem virtual_ids_start_with_NUL_witness:
  "startsWith (CHR 0x00 # ''shim:react-native-web/dist/index.js'') [CHR 0x00] \<and>
   fst (rewriteResolver sampleHost sampleConfig sampleResolver sampleShim sampleCanary True
     (sampleContext None) ''react-native-web'' (Some ''web'') initialState) =
     Inr (Some (SourceFile (CHR 0x00 # ''shim:react-native-web/dist/index.js'') [])) \<and>
   virtualModules (snd (rewriteResolver sampleHost sampleConfig sampleResolver sampleShim
     sampleCanary True (sampleContext None) ''react-native-web'' (Some ''web'') initialState))
     (CHR 0x00 # ''shim:react-native-web/dist/index.js'') = Some ''module.exports = {};'' \<and>
   virtualModules (snd (rewriteResolver sampleHost sampleConfig sampleResolver sampleShim
     sampleCanary True (sampleContext None) ''react-native-web'' (Some ''web'') initialState))
     ''/app/index.js'' = None"
proof -
  note all = virtual_ids_start_with_NUL [of sampleHost sampleConfig "Some ''web''" initialState
      sampleIsNodeExternal sampleResolver "sampleContext None" "''react-native-web''"
      "externals sampleIsServerEnvironment" sampleShim sampleCanary True
      sampleValueResolver True "''/app/node_modules/react-native''"]
  note changed = all [THEN conjunct2, THEN conjunct2, THEN conjunct2, THEN conjunct2,
      THEN conjunct2, THEN conjunct2, THEN conjunct2, THEN conjunct1, rule_format,
      of "CHR 0x00 # ''shim:react-native-web/dist/index.js''"]
  have "startsWith (CHR 0x00 # ''shim:react-native-web/dist/index.js'') [CHR 0x00]"
    using changed by (simp add: sample_rewrite_web initialState_virtualModules)
  then show ?thesis
    by (simp add: sample_rewrite_web initialState_virtualModules)
qed


end
